theory Spec2Isabelle
  imports Main "HOL-Library.Word" "HOL-Library.AList"
begin

unbundle bit_operations_syntax

chapter \<open>Model\<close>

section \<open>Buffers, strings and hexadecimal text\<close>

text \<open>
  A Node \<^verbatim>\<open>Buffer\<close> is a list of bytes. A JavaScript string is modelled by the list of
  its characters, each one byte wide (ASCII text); \<open>utf8\<close> is the encoding
  \<^verbatim>\<open>hash.update(val, "utf8")\<close> and \<^verbatim>\<open>Buffer.from(data, "utf8")\<close> apply.
\<close>

type_synonym byte = "8 word"
type_synonym buffer = "byte list"

definition utf8 :: "string \<Rightarrow> buffer" where
  "utf8 s = map (\<lambda>c. word_of_nat (of_char c)) s"

text \<open>\<^verbatim>\<open>String.prototype.toLowerCase\<close>: the letters A to Z are folded, all else is kept.\<close>

definition lower_char :: "char \<Rightarrow> char" where
  "lower_char c =
     (let n = (of_char c :: nat) in if 65 \<le> n \<and> n \<le> 90 then char_of (n + 32) else c)"

definition toLowerCase :: "string \<Rightarrow> string" where
  "toLowerCase s = map lower_char s"

definition hex_digit :: "nat \<Rightarrow> char" where
  "hex_digit n = (''0123456789abcdef'') ! n"

definition hex_val :: "char \<Rightarrow> nat option" where
  "hex_val c =
     (let n = (of_char c :: nat) in
      if 48 \<le> n \<and> n \<le> 57 then Some (n - 48)
      else if 97 \<le> n \<and> n \<le> 102 then Some (n - 87)
      else if 65 \<le> n \<and> n \<le> 70 then Some (n - 55)
      else None)"

text \<open>\<^verbatim>\<open>buf.toString("hex")\<close>: two lower-case digits for each byte.\<close>

fun toHex :: "buffer \<Rightarrow> string" where
  "toHex [] = []"
| "toHex (b # bs) = hex_digit (unat b div 16) # hex_digit (unat b mod 16) # toHex bs"

text \<open>
  \<^verbatim>\<open>Buffer.from(s, "hex")\<close>: pairs of digits of either case are decoded; decoding stops
  at the first pair that is not hexadecimal, and a last single character is dropped.
\<close>

fun fromHex :: "string \<Rightarrow> buffer" where
  "fromHex (a # b # rest) =
     (case (hex_val a, hex_val b) of
        (Some x, Some y) \<Rightarrow> word_of_nat (16 * x + y) # fromHex rest
      | _ \<Rightarrow> [])"
| "fromHex _ = []"

text \<open>\<^verbatim>\<open>Number.prototype.toString\<close> on a non-negative integer: its decimal digits.\<close>

function show_nat :: "nat \<Rightarrow> string" where
  "show_nat n = (if n < 10 then [hex_digit n] else show_nat (n div 10) @ [hex_digit (n mod 10)])"
  by pat_completeness auto
termination
  by (relation "measure id") auto

declare show_nat.simps [simp del]

section \<open>Errors\<close>

text \<open>
  The classes of \<^verbatim>\<open>errors.ts\<close>, the plain \<^verbatim>\<open>Error\<close> the SDK throws with
  a message, and the \<^verbatim>\<open>TypeError\<close> the JavaScript runtime raises when a property of
  \<^verbatim>\<open>undefined\<close> is read or a method of \<^verbatim>\<open>undefined\<close> is called, the
  \<^verbatim>\<open>SyntaxError\<close> of \<^verbatim>\<open>JSON.parse\<close> and the \<^verbatim>\<open>AssertionError\<close> of
  \<^verbatim>\<open>assert.ok\<close>.
\<close>

datatype error =
    Error string
  | TimeoutError string
  | SessionExpiredError string
  | PayloadDataLengthExceededError string
  | TypeError
  | SyntaxError
  | AssertionError string

section \<open>JSON values\<close>

text \<open>
  The values \<^verbatim>\<open>JSON.parse\<close> returns and the bodies the server sends. An object is
  the list of its properties in order.
\<close>

datatype json =
    JNull
  | JBool bool
  | JNum int
  | JStr string
  | JArr "json list"
  | JObj "(string \<times> json) list"

text \<open>Reading a property: \<open>None\<close> is \<^verbatim>\<open>undefined\<close>.\<close>

definition field :: "json \<Rightarrow> string \<Rightarrow> json option" where
  "field j name = (case j of JObj props \<Rightarrow> map_of props name | _ \<Rightarrow> None)"

text \<open>JavaScript's truthiness of a property that may be absent.\<close>

definition truthy :: "json option \<Rightarrow> bool" where
  "truthy v =
     (case v of
        None \<Rightarrow> False
      | Some JNull \<Rightarrow> False
      | Some (JBool b) \<Rightarrow> b
      | Some (JNum n) \<Rightarrow> n \<noteq> 0
      | Some (JStr s) \<Rightarrow> s \<noteq> []
      | Some _ \<Rightarrow> True)"

section \<open>The platform: cryptography and JSON\<close>

text \<open>
  The SDK calls Node's \<^verbatim>\<open>crypto\<close> module, the \<^verbatim>\<open>node-rsa\<close> package and the
  built-in \<^verbatim>\<open>JSON\<close> object; none is part of the repository. Their operations are
  the fields of a record that every function of the model takes as its first argument;
  \<open>'k\<close> is the type of \<^verbatim>\<open>NodeRSA\<close> key objects.
  \<^item> \<open>sha256\<close>: \<^verbatim>\<open>crypto.createHash("sha256")\<close>, updated and digested;
  \<^item> \<open>exportPublicPem\<close>, \<open>exportPrivateDer\<close>: \<^verbatim>\<open>key.exportKey\<close> with the
    formats \<^verbatim>\<open>pkcs8-public-pem\<close> and \<^verbatim>\<open>pkcs1-private-der\<close>;
  \<^item> \<open>importPublicPem\<close>, \<open>importPrivateDer\<close>: \<^verbatim>\<open>key.importKey\<close> (and
    the constructor \<^verbatim>\<open>new NodeRSA(pem)\<close>), \<open>Inl\<close> the error when it throws;
  \<^item> \<open>rsa_sign\<close>, \<open>rsa_verify\<close>: \<^verbatim>\<open>key.sign(data)\<close> and \<^verbatim>\<open>key.verify(data, signature)\<close>;
  \<^item> \<open>rsa_encrypt\<close>: \<^verbatim>\<open>key.encrypt(data)\<close>, whose PKCS1 padding is random: the
    padding bytes are the second argument;
  \<^item> \<open>rsa_decrypt\<close>: \<^verbatim>\<open>key.decrypt(data)\<close>, \<open>Inl\<close> the error when it throws;
  \<^item> \<open>aes_block\<close>: the AES-256 block function (key, then a block of 16 bytes);
  \<^item> \<open>json_stringify\<close>, \<open>json_parse\<close>: \<^verbatim>\<open>JSON.stringify\<close> and
    \<^verbatim>\<open>JSON.parse\<close>, the latter \<open>Inl\<close> when it throws.
\<close>

record 'k platform =
  sha256 :: "buffer \<Rightarrow> buffer"
  exportPublicPem :: "'k \<Rightarrow> string"
  exportPrivateDer :: "'k \<Rightarrow> buffer"
  importPublicPem :: "string \<Rightarrow> error + 'k"
  importPrivateDer :: "buffer \<Rightarrow> error + 'k"
  rsa_sign :: "'k \<Rightarrow> buffer \<Rightarrow> buffer"
  rsa_verify :: "'k \<Rightarrow> buffer \<Rightarrow> buffer \<Rightarrow> bool"
  rsa_encrypt :: "'k \<Rightarrow> buffer \<Rightarrow> buffer \<Rightarrow> buffer"
  rsa_decrypt :: "'k \<Rightarrow> buffer \<Rightarrow> error + buffer"
  aes_block :: "buffer \<Rightarrow> buffer \<Rightarrow> buffer"
  json_stringify :: "json \<Rightarrow> string"
  json_parse :: "string \<Rightarrow> error + json"

section \<open>Service: the signature over a device key\<close>

text \<open>
  A field that may hold no string holds \<^verbatim>\<open>undefined\<close> or \<^verbatim>\<open>null\<close>. The two are
  different values: \<^verbatim>\<open>===\<close> tells them apart, and so does the serializer.
\<close>

datatype nullable = Undefined | Null | Str string

text \<open>
  The fields of \<^verbatim>\<open>Service\<close> the model needs: \<^verbatim>\<open>id\<close>, \<^verbatim>\<open>webClient.url\<close>,
  \<^verbatim>\<open>key\<close> and \<^verbatim>\<open>sessionId\<close>. The session id is declared
  \<^verbatim>\<open>string | null\<close>; \<^verbatim>\<open>refreshSession\<close> stores what the server answered, which
  is \<^verbatim>\<open>undefined\<close> when the answer has no session id.
\<close>

record 'k Service =
  service_id :: string
  service_url :: string
  service_key :: "'k"
  sessionId :: nullable

text \<open>
  The six values \<^verbatim>\<open>calculateSignatureData\<close> feeds to the hash, in the order of its
  array literal.
\<close>

definition signature_inputs ::
  "'k platform \<Rightarrow> 'k Service \<Rightarrow> string \<Rightarrow> string \<Rightarrow> 'k \<Rightarrow> nat \<Rightarrow> string list" where
  "signature_inputs L svc username deviceId publicKey publicKeyLevel =
     [toLowerCase (service_url svc),
      service_id svc,
      toLowerCase username,
      deviceId,
      exportPublicPem L publicKey @ [CHR 0x0A],
      show_nat publicKeyLevel]"

definition calculateSignatureData ::
  "'k platform \<Rightarrow> 'k Service \<Rightarrow> string \<Rightarrow> string \<Rightarrow> 'k \<Rightarrow> nat \<Rightarrow> buffer" where
  "calculateSignatureData L svc username deviceId publicKey publicKeyLevel =
     sha256 L (concat (map utf8
       (signature_inputs L svc username deviceId publicKey publicKeyLevel)))"

text \<open>\<^verbatim>\<open>Service.sign\<close>: with the service's own key.\<close>

definition Service_sign :: "'k platform \<Rightarrow> 'k Service \<Rightarrow> buffer \<Rightarrow> buffer" where
  "Service_sign L svc bytes = rsa_sign L (service_key svc) bytes"

definition calculateSignature ::
  "'k platform \<Rightarrow> 'k Service \<Rightarrow> string \<Rightarrow> string \<Rightarrow> 'k \<Rightarrow> nat \<Rightarrow> buffer" where
  "calculateSignature L svc username deviceId publicKey publicKeyLevel =
     Service_sign L svc
       (calculateSignatureData L svc username deviceId publicKey publicKeyLevel)"

text \<open>
  \<^verbatim>\<open>Service.verifySignature\<close>: the last line is
  \<^verbatim>\<open>return this.key.verify(signatureData, signature)\<close>.
\<close>

definition verifySignature ::
  "'k platform \<Rightarrow> 'k Service \<Rightarrow> buffer \<Rightarrow> string \<Rightarrow> string \<Rightarrow> 'k \<Rightarrow> nat \<Rightarrow> bool" where
  "verifySignature L svc signature username deviceId publicKey publicKeyLevel =
     rsa_verify L (service_key svc)
       (calculateSignatureData L svc username deviceId publicKey publicKeyLevel) signature"

text \<open>Two lists of the same length that differ at exactly one position.\<close>

definition differ_in_one :: "'a list \<Rightarrow> 'a list \<Rightarrow> bool" where
  "differ_in_one xs ys \<longleftrightarrow>
     length xs = length ys \<and> length (filter (\<lambda>(x, y). x \<noteq> y) (zip xs ys)) = 1"

section \<open>A small instance of the library\<close>

text \<open>
  The closed examples below run the model on a library small enough to evaluate by
  hand. A key pair is a number; a signature is the key's number put before the signed
  bytes, so it verifies under that key and for those bytes only; encryption marks the
  bytes with the recipient's number; the digest returns what it was given; the exported
  forms of key \<open>n\<close> are the letter k, and the byte 1, written \<open>n\<close> times. The block function
  stands for AES; nothing below depends on which function it is.
\<close>

definition toy_import :: "string \<Rightarrow> error + nat" where
  "toy_import s =
     (if list_all (\<lambda>c. c = CHR ''k'') s then Inr (length s)
      else Inl (Error ''unsupported key''))"

definition toy_import_der :: "buffer \<Rightarrow> error + nat" where
  "toy_import_der b =
     (if list_all (\<lambda>w. w = 1) b then Inr (length b) else Inl (Error ''unsupported key''))"

definition toy_decrypt :: "nat \<Rightarrow> buffer \<Rightarrow> error + buffer" where
  "toy_decrypt k c =
     (case c of
        [] \<Rightarrow> Inl (Error ''decryption failed'')
      | t # m \<Rightarrow> if t = word_of_nat k then Inr m else Inl (Error ''decryption failed''))"

text \<open>
  The JSON of the instance covers texts without white space and without escapes:
  the three literals, non-negative integers, strings, arrays and objects.
\<close>

definition quote :: "string \<Rightarrow> string" where
  "quote s = [CHR 0x22] @ s @ [CHR 0x22]"

fun join_comma :: "string list \<Rightarrow> string" where
  "join_comma [] = []"
| "join_comma [x] = x"
| "join_comma (x # y # ys) = x @ '','' @ join_comma (y # ys)"

fun toy_stringify :: "json \<Rightarrow> string" where
  "toy_stringify JNull = ''null''"
| "toy_stringify (JBool b) = (if b then ''true'' else ''false'')"
| "toy_stringify (JNum n) = (if n < 0 then ''-'' @ show_nat (nat (- n)) else show_nat (nat n))"
| "toy_stringify (JStr s) = quote s"
| "toy_stringify (JArr xs) = ''['' @ join_comma (map toy_stringify xs) @ '']''"
| "toy_stringify (JObj props) =
     ''{'' @ join_comma (map (\<lambda>p. quote (fst p) @ '':'' @ toy_stringify (snd p)) props) @ ''}''"

definition is_digit :: "char \<Rightarrow> bool" where
  "is_digit c \<longleftrightarrow> (48::nat) \<le> of_char c \<and> (of_char c :: nat) \<le> 57"

definition digits_value :: "string \<Rightarrow> nat" where
  "digits_value ds = foldl (\<lambda>acc c. 10 * acc + (of_char c - 48)) 0 ds"

fun string_body :: "string \<Rightarrow> (string \<times> string) option" where
  "string_body [] = None"
| "string_body (c # cs) =
     (if c = CHR 0x22 then Some ([], cs)
      else if c = CHR 0x5C then None
      else (case string_body cs of None \<Rightarrow> None | Some (s, r) \<Rightarrow> Some (c # s, r)))"

fun strip_prefix :: "string \<Rightarrow> string \<Rightarrow> string option" where
  "strip_prefix [] s = Some s"
| "strip_prefix (p # ps) [] = None"
| "strip_prefix (p # ps) (c # cs) = (if p = c then strip_prefix ps cs else None)"

fun parse_value :: "nat \<Rightarrow> string \<Rightarrow> (json \<times> string) option"
  and parse_elements :: "nat \<Rightarrow> string \<Rightarrow> (json list \<times> string) option"
  and parse_members :: "nat \<Rightarrow> string \<Rightarrow> ((string \<times> json) list \<times> string) option" where
  "parse_value 0 s = None"
| "parse_value (Suc f) [] = None"
| "parse_value (Suc f) (c # cs) =
     (if c = CHR ''n'' then map_option (Pair JNull) (strip_prefix ''ull'' cs)
      else if c = CHR ''t'' then map_option (Pair (JBool True)) (strip_prefix ''rue'' cs)
      else if c = CHR ''f'' then map_option (Pair (JBool False)) (strip_prefix ''alse'' cs)
      else if c = CHR 0x22 then
        (case string_body cs of None \<Rightarrow> None | Some (s, r) \<Rightarrow> Some (JStr s, r))
      else if c = CHR ''['' then
        (case cs of
           [] \<Rightarrow> None
         | d # ds \<Rightarrow>
             if d = CHR '']'' then Some (JArr [], ds)
             else (case parse_elements f cs of None \<Rightarrow> None | Some (vs, r) \<Rightarrow> Some (JArr vs, r)))
      else if c = CHR ''{'' then
        (case cs of
           [] \<Rightarrow> None
         | d # ds \<Rightarrow>
             if d = CHR ''}'' then Some (JObj [], ds)
             else (case parse_members f cs of None \<Rightarrow> None | Some (ps, r) \<Rightarrow> Some (JObj ps, r)))
      else if is_digit c then
        (let ds = takeWhile is_digit (c # cs) in
         if c = CHR ''0'' \<and> length ds > 1 then None
         else Some (JNum (int (digits_value ds)), dropWhile is_digit (c # cs)))
      else None)"
| "parse_elements 0 s = None"
| "parse_elements (Suc f) s =
     (case parse_value f s of
        None \<Rightarrow> None
      | Some (v, []) \<Rightarrow> None
      | Some (v, c # r) \<Rightarrow>
          if c = CHR '']'' then Some ([v], r)
          else if c = CHR '','' then
            (case parse_elements f r of None \<Rightarrow> None | Some (vs, r') \<Rightarrow> Some (v # vs, r'))
          else None)"
| "parse_members 0 s = None"
| "parse_members (Suc f) s =
     (case s of
        [] \<Rightarrow> None
      | q # s1 \<Rightarrow>
          if q \<noteq> CHR 0x22 then None
          else (case string_body s1 of
             None \<Rightarrow> None
           | Some (name, s2) \<Rightarrow>
               (case s2 of
                  [] \<Rightarrow> None
                | colon # s3 \<Rightarrow>
                    if colon \<noteq> CHR '':'' then None
                    else (case parse_value f s3 of
                       None \<Rightarrow> None
                     | Some (v, []) \<Rightarrow> None
                     | Some (v, c # r) \<Rightarrow>
                         if c = CHR ''}'' then Some ([(name, v)], r)
                         else if c = CHR '','' then
                           (case parse_members f r of
                              None \<Rightarrow> None
                            | Some (ps, r') \<Rightarrow> Some ((name, v) # ps, r'))
                         else None))))"

definition toy_parse :: "string \<Rightarrow> error + json" where
  "toy_parse s =
     (case parse_value (Suc (length s)) s of
        Some (v, []) \<Rightarrow> Inr v
      | _ \<Rightarrow> Inl SyntaxError)"

definition toy_lib :: "nat platform" where
  "toy_lib = \<lparr>
     sha256 = (\<lambda>m. m),
     exportPublicPem = (\<lambda>k. replicate k (CHR ''k'')),
     exportPrivateDer = (\<lambda>k. replicate k 1),
     importPublicPem = toy_import,
     importPrivateDer = toy_import_der,
     rsa_sign = (\<lambda>k m. word_of_nat k # m),
     rsa_verify = (\<lambda>k m s. s = word_of_nat k # m),
     rsa_encrypt = (\<lambda>k r m. word_of_nat k # m),
     rsa_decrypt = toy_decrypt,
     aes_block = (\<lambda>k b. map (\<lambda>x. x + 1) (rev (take 16 (b @ replicate 16 0)))),
     json_stringify = toy_stringify,
     json_parse = toy_parse \<rparr>"

definition toy_service :: "nat Service" where
  "toy_service = \<lparr> service_id = ''svc-1'', service_url = ''https://Cipherise.example/'',
     service_key = 7, sessionId = Null \<rparr>"

section \<open>Authentication and enrolment states\<close>

datatype AuthenticationState =
  Initialised | Scanned | PendingSPSolution | PendingAppSolution | Done | NotFound

datatype EnrolmentState =
  EInitialised | EScanned | EValidated | EConfirmed | EFailed | EUnknown

text \<open>
  A template literal prints \<^verbatim>\<open>undefined\<close> for a field the response does not have.
\<close>

definition show_field :: "string option \<Rightarrow> string" where
  "show_field s = (case s of None \<Rightarrow> ''undefined'' | Some t \<Rightarrow> t)"

text \<open>
  \<^verbatim>\<open>Authentication.getState\<close>. The argument \<open>got\<close> is what
  \<^verbatim>\<open>await this.service.getUrl(this.statusUrl)\<close> produced: an error thrown
  (\<open>Inl\<close>), \<^verbatim>\<open>undefined\<close> (\<open>Inr None\<close>), or a body whose
  \<^verbatim>\<open>statusText\<close> field is the inner option.
\<close>

definition Authentication_getState ::
  "string \<Rightarrow> error + string option option \<Rightarrow> error + AuthenticationState" where
  "Authentication_getState logId got =
     (case got of
        Inl e \<Rightarrow> Inl e
      | Inr None \<Rightarrow> Inl TypeError
      | Inr (Some statusText) \<Rightarrow>
          if statusText = Some ''initialised'' then Inr Initialised
          else if statusText = Some ''scanned'' then Inr Scanned
          else if statusText = Some ''pending sp solution'' then Inr PendingSPSolution
          else if statusText = Some ''pending app solution'' then Inr PendingAppSolution
          else if statusText = Some ''done'' then Inr Done
          else if statusText = Some ''not found'' then Inr NotFound
          else Inl (Error (''Unexpected status '' @ show_field statusText
                           @ '' for authentication ('' @ logId @ '')'')))"

text \<open>\<^verbatim>\<open>PushAuth.getState\<close>: the hidden state is reported as \<open>Initialised\<close>.\<close>

definition PushAuth_getState ::
  "string \<Rightarrow> error + string option option \<Rightarrow> error + AuthenticationState" where
  "PushAuth_getState logId got =
     (case Authentication_getState logId got of
        Inl e \<Rightarrow> Inl e
      | Inr state \<Rightarrow> Inr (if state = PendingSPSolution then Initialised else state))"

text \<open>\<^verbatim>\<open>WaveAuth.getState\<close>: the hidden state is reported as \<open>Scanned\<close>.\<close>

definition WaveAuth_getState ::
  "string \<Rightarrow> error + string option option \<Rightarrow> error + AuthenticationState" where
  "WaveAuth_getState logId got =
     (case Authentication_getState logId got of
        Inl e \<Rightarrow> Inl e
      | Inr state \<Rightarrow> Inr (if state = PendingSPSolution then Scanned else state))"

text \<open>
  \<^verbatim>\<open>Enrolment.getState\<close>, on the \<^verbatim>\<open>QREnrolStatus\<close> field of the body.
\<close>

definition Enrolment_getState :: "error + string option option \<Rightarrow> error + EnrolmentState" where
  "Enrolment_getState got =
     (case got of
        Inl e \<Rightarrow> Inl e
      | Inr None \<Rightarrow> Inl TypeError
      | Inr (Some status) \<Rightarrow>
          if status = Some ''initialised'' then Inr EInitialised
          else if status = Some ''scanned'' then Inr EScanned
          else if status = Some ''validated'' then Inr EValidated
          else if status = Some ''confirm'' then Inr EConfirmed
          else if status = Some ''failed'' then Inr EFailed
          else Inr EUnknown)"

definition recognised_status :: "string list" where
  "recognised_status =
     [''initialised'', ''scanned'', ''pending sp solution'', ''pending app solution'',
      ''done'', ''not found'']"

definition enrolment_status :: "string list" where
  "enrolment_status = [''initialised'', ''scanned'', ''validated'', ''confirm'', ''failed'']"

section \<open>Devices\<close>

text \<open>
  \<^verbatim>\<open>Device\<close>: identifier, friendly name and the map from level to key. A JavaScript
  \<^verbatim>\<open>Map\<close> keeps its entries in insertion order, and setting a key that is there
  replaces the entry in place: an association list under \<open>AList.update\<close>.
\<close>

record 'k Device =
  device_id :: string
  device_name :: string
  device_keys :: "(nat \<times> 'k) list"

text \<open>
  \<^verbatim>\<open>util.objectToPublicKeyMap\<close>. The object is the list of its own properties in the
  order \<^verbatim>\<open>for ... in\<close> visits them, each key already read by \<^verbatim>\<open>Number(level)\<close>.
\<close>

fun objectToPublicKeyMap_loop ::
  "'k platform \<Rightarrow> (nat \<times> string) list \<Rightarrow> (nat \<times> 'k) list \<Rightarrow> error + (nat \<times> 'k) list" where
  "objectToPublicKeyMap_loop L [] keys = Inr keys"
| "objectToPublicKeyMap_loop L ((levelNumber, publicKeyString) # rest) keys =
     (case importPublicPem L publicKeyString of
        Inl e \<Rightarrow> Inl e
      | Inr publicKey \<Rightarrow>
          objectToPublicKeyMap_loop L rest (AList.update levelNumber publicKey keys))"

definition objectToPublicKeyMap ::
  "'k platform \<Rightarrow> (nat \<times> string) list \<Rightarrow> error + (nat \<times> 'k) list" where
  "objectToPublicKeyMap L publicKeys = objectToPublicKeyMap_loop L publicKeys []"

text \<open>
  A JavaScript object whose keys are non-negative integers lists them in ascending order,
  whatever the order of the assignments: \<open>object_set\<close> is the assignment
  \<^verbatim>\<open>keys[level] = v\<close> on the list of properties.
\<close>

fun object_set :: "nat \<Rightarrow> 'v \<Rightarrow> (nat \<times> 'v) list \<Rightarrow> (nat \<times> 'v) list" where
  "object_set k v [] = [(k, v)]"
| "object_set k v ((k', v') # rest) =
     (if k = k' then (k, v) # rest
      else if k < k' then (k, v) # (k', v') # rest
      else (k', v') # object_set k v rest)"

text \<open>\<^verbatim>\<open>util.publicKeyMapToObject\<close>: each key exported as PEM text under its level.\<close>

definition publicKeyMapToObject ::
  "'k platform \<Rightarrow> (nat \<times> 'k) list \<Rightarrow> (nat \<times> string) list" where
  "publicKeyMapToObject L keys =
     fold (\<lambda>(level, k) obj. object_set level (exportPublicPem L k) obj) keys []"

section \<open>Service.getUserDevices\<close>

text \<open>One element of the \<^verbatim>\<open>devices\<close> array the server returns.\<close>

record deviceJson =
  deviceId :: string
  friendlyName :: string
  publicKeys :: "(nat \<times> string) list"
  signatures :: "(nat \<times> string) list"

text \<open>
  The inner \<^verbatim>\<open>for (const level in deviceJson.signatures)\<close> loop. The flag
  \<^verbatim>\<open>foundValidDevice\<close> is threaded through; the first component of the result says
  whether the loop ran to its end (\<open>False\<close>: the \<^verbatim>\<open>return\<close> that skips the device).
  A level with no public key reaches \<^verbatim>\<open>publicKey.exportKey\<close> on \<^verbatim>\<open>undefined\<close>.
\<close>

fun signatures_loop ::
  "'k platform \<Rightarrow> 'k Service \<Rightarrow> string \<Rightarrow> string \<Rightarrow> (nat \<times> 'k) list
     \<Rightarrow> (nat \<times> string) list \<Rightarrow> bool \<Rightarrow> error + (bool \<times> bool)" where
  "signatures_loop L svc username devId keys [] foundValidDevice = Inr (True, foundValidDevice)"
| "signatures_loop L svc username devId keys ((levelNumber, sigHex) # rest) foundValidDevice =
     (case map_of keys levelNumber of
        None \<Rightarrow> Inl TypeError
      | Some publicKey \<Rightarrow>
          if verifySignature L svc (fromHex sigHex) username devId publicKey levelNumber
          then signatures_loop L svc username devId keys rest True
          else Inr (False, foundValidDevice))"

text \<open>The outer \<^verbatim>\<open>devicesJson.forEach\<close>, with the flag and the list built so far.\<close>

fun devices_loop ::
  "'k platform \<Rightarrow> 'k Service \<Rightarrow> string \<Rightarrow> deviceJson list \<Rightarrow> bool \<times> 'k Device list
     \<Rightarrow> error + (bool \<times> 'k Device list)" where
  "devices_loop L svc username [] st = Inr st"
| "devices_loop L svc username (dj # rest) (foundValidDevice, devices) =
     (case objectToPublicKeyMap L (publicKeys dj) of
        Inl e \<Rightarrow> Inl e
      | Inr keys \<Rightarrow>
          (case signatures_loop L svc username (deviceId dj) keys (signatures dj) foundValidDevice of
             Inl e \<Rightarrow> Inl e
           | Inr (finished, found) \<Rightarrow>
               devices_loop L svc username rest
                 (found,
                  if finished
                  then devices @ [\<lparr> device_id = deviceId dj, device_name = friendlyName dj,
                                    device_keys = keys \<rparr>]
                  else devices)))"

text \<open>
  \<^verbatim>\<open>Service.getUserDevices\<close>. \<open>got\<close> is the outcome of
  \<^verbatim>\<open>await this.getUri(...)\<close>: an error, \<^verbatim>\<open>undefined\<close> (\<open>Inr None\<close>), or the
  \<^verbatim>\<open>devices\<close> array of the body.
\<close>

definition getUserDevices ::
  "'k platform \<Rightarrow> 'k Service \<Rightarrow> string \<Rightarrow> error + deviceJson list option
     \<Rightarrow> error + 'k Device list" where
  "getUserDevices L svc username got =
     (case got of
        Inl e \<Rightarrow> Inl e
      | Inr None \<Rightarrow> Inl TypeError
      | Inr (Some devicesJson) \<Rightarrow>
          (case devices_loop L svc username devicesJson (devicesJson = [], []) of
             Inl e \<Rightarrow> Inl e
           | Inr (foundValidDevice, devices) \<Rightarrow>
               if \<not> foundValidDevice then Inl (Error ''Mismatching key signatures'')
               else Inr devices))"

section \<open>The web client and the state of a session\<close>

text \<open>
  \<^verbatim>\<open>WebClient\<close> sends one HTTP request and resolves to the parsed body or rejects
  with a classified error. The server is not part of the repository: the web client is
  a function from the requests sent so far and the request sent now to the outcome.
\<close>

datatype http_method = GET | POST

record request =
  req_method :: http_method
  req_url :: string
  req_form :: "json option"
  req_session :: "string option"

type_synonym webclient = "request list \<Rightarrow> request \<Rightarrow> error + json"

text \<open>
  What the SDK mutates: the service (its \<^verbatim>\<open>sessionId\<close>), the payload size the
  \<^verbatim>\<open>Client\<close> caches, and, to speak about what was sent, the list of requests.
\<close>

record 'k state =
  service :: "'k Service"
  payloadSize :: "int option"
  requests :: "request list"

definition web_call :: "webclient \<Rightarrow> 'k state \<Rightarrow> request \<Rightarrow> (error + json) \<times> 'k state" where
  "web_call W st r = (W (requests st) r, st\<lparr> requests := requests st @ [r] \<rparr>)"

text \<open>
  The casts of the source (\<^verbatim>\<open>as string\<close>, \<^verbatim>\<open>as number\<close>) are taken at their word:
  a property of another type counts as absent.
\<close>

definition as_string :: "json option \<Rightarrow> string option" where
  "as_string v = (case v of Some (JStr s) \<Rightarrow> Some s | _ \<Rightarrow> None)"

text \<open>
  A property stored without a cast keeps the difference between a missing property
  (\<^verbatim>\<open>undefined\<close>) and \<^verbatim>\<open>null\<close>. A value that is neither a string nor \<^verbatim>\<open>null\<close>
  is outside the declared type of the field and counts as missing.
\<close>

definition as_nullable :: "json option \<Rightarrow> nullable" where
  "as_nullable v =
     (case v of Some (JStr s) \<Rightarrow> Str s | Some JNull \<Rightarrow> Null | _ \<Rightarrow> Undefined)"

definition as_number :: "json option \<Rightarrow> int option" where
  "as_number v = (case v of Some (JNum n) \<Rightarrow> Some n | _ \<Rightarrow> None)"

section \<open>Client: server information and the payload size\<close>

text \<open>\<^verbatim>\<open>String.prototype.split\<close> on a one-character separator.\<close>

fun split_on :: "char \<Rightarrow> string \<Rightarrow> string list" where
  "split_on sep [] = [[]]"
| "split_on sep (c # cs) =
     (if c = sep then [] # split_on sep cs
      else (case split_on sep cs of [] \<Rightarrow> [[c]] | w # ws \<Rightarrow> (c # w) # ws))"

text \<open>
  \<^verbatim>\<open>parseInt(s, 10)\<close>: leading white space, an optional sign, then the longest run of
  digits; \<open>None\<close> is \<^verbatim>\<open>NaN\<close>.
\<close>

definition is_space :: "char \<Rightarrow> bool" where
  "is_space c \<longleftrightarrow> c \<in> set [CHR '' '', CHR 0x09, CHR 0x0A, CHR 0x0B, CHR 0x0C, CHR 0x0D]"

definition parse_digits :: "string \<Rightarrow> nat option" where
  "parse_digits s =
     (let ds = takeWhile is_digit s in if ds = [] then None else Some (digits_value ds))"

definition parseInt10 :: "string \<Rightarrow> int option" where
  "parseInt10 s =
     (case dropWhile is_space s of
        [] \<Rightarrow> None
      | c # cs \<Rightarrow>
          if c = CHR ''-'' then map_option (\<lambda>n. - int n) (parse_digits cs)
          else if c = CHR ''+'' then map_option int (parse_digits cs)
          else map_option int (parse_digits (c # cs)))"

text \<open>
  \<^verbatim>\<open>Version.fromString\<close> with the constructor's assertion; a component that is
  \<^verbatim>\<open>NaN\<close> is kept.
\<close>

definition Version_fromString :: "string \<Rightarrow> error + int option list" where
  "Version_fromString version =
     (let digits = map parseInt10 (split_on (CHR ''.'') version) in
      if length digits = 3 then Inr digits
      else Inl (AssertionError ''Expected three digits for version''))"

record ServerInformation =
  serverVersion :: "int option list"
  buildVersion :: "int option"
  appMinVersion :: "int option list"
  maxPayloadSize :: int

text \<open>The constructor of \<^verbatim>\<open>ServerInformation\<close>, on the properties as the body has them.\<close>

definition new_ServerInformation ::
  "string \<Rightarrow> string option \<Rightarrow> string option \<Rightarrow> int \<Rightarrow> error + ServerInformation" where
  "new_ServerInformation sv bv amv maxSize =
     (case Version_fromString sv of
        Inl e \<Rightarrow> Inl e
      | Inr v \<Rightarrow>
          (case amv of
             None \<Rightarrow> Inl TypeError
           | Some a \<Rightarrow>
               (case Version_fromString a of
                  Inl e \<Rightarrow> Inl e
                | Inr m \<Rightarrow>
                    Inr \<lparr> serverVersion = v,
                          buildVersion = (case bv of None \<Rightarrow> None | Some b \<Rightarrow> parseInt10 b),
                          appMinVersion = m, maxPayloadSize = maxSize \<rparr>)))"

text \<open>
  \<^verbatim>\<open>Client.serverInformation\<close>. The request carries no session. The payload maxSize is
  stored before the \<^verbatim>\<open>ServerInformation\<close> is built, so it stays when the constructor
  throws.
\<close>

definition serverInformation ::
  "webclient \<Rightarrow> 'k state \<Rightarrow> (error + ServerInformation) \<times> 'k state" where
  "serverInformation W st =
     (case web_call W st \<lparr> req_method = GET, req_url = service_url (service st) @ ''info'',
                            req_form = None, req_session = None \<rparr> of
        (Inl e, st1) \<Rightarrow> (Inl e, st1)
      | (Inr response, st1) \<Rightarrow>
          if as_string (field response ''productType'') \<noteq> Some ''CS''
          then (Inl (Error (''Expected Cipherise server, but product type is ''
                            @ [CHR 0x27] @ show_field (as_string (field response ''productType''))
                            @ [CHR 0x27])), st1)
          else (case as_string (field response ''serverVersion'') of
             None \<Rightarrow> (Inl TypeError, st1)
           | Some sv \<Rightarrow>
               if (case parseInt10 (hd (split_on (CHR ''.'') sv)) of
                     None \<Rightarrow> False | Some major \<Rightarrow> major < 6)
               then (Inl (Error (''This version of the SDK does not support Cipherise servers ''
                                 @ ''older than version 6.x.x. Please either upgrade your ''
                                 @ ''Cipherise server or downgrade your SDK, as appropriate.'')),
                     st1)
               else
                 (let maxSize = (case as_number (field response ''payloadSize'') of
                                None \<Rightarrow> 4000
                              | Some n \<Rightarrow> if n = 0 then 4000 else n);
                      st2 = st1\<lparr> payloadSize := Some maxSize \<rparr>
                  in (new_ServerInformation sv (as_string (field response ''buildVersion''))
                        (as_string (field response ''appMinVersion'')) maxSize, st2))))"

text \<open>\<^verbatim>\<open>Client.getPayloadSize\<close>.\<close>

definition getPayloadSize :: "webclient \<Rightarrow> 'k state \<Rightarrow> (error + int) \<times> 'k state" where
  "getPayloadSize W st =
     (case payloadSize st of
        Some maxSize \<Rightarrow> (Inr maxSize, st)
      | None \<Rightarrow>
          (case serverInformation W st of
             (Inl e, st1) \<Rightarrow> (Inl e, st1)
           | (Inr info, st1) \<Rightarrow> (Inr (maxPayloadSize info), st1)))"

section \<open>The payload envelope\<close>

text \<open>
  AES-256 in CFB mode, as \<^verbatim>\<open>crypto.createCipheriv("aes-256-cfb", key, iv)\<close> runs it:
  each block of 16 bytes (the last may be shorter) is combined by exclusive or with the
  encryption of the previous ciphertext block, the first with that of the IV. The first
  argument is the block function under the key.
\<close>

function cfb_encrypt :: "(buffer \<Rightarrow> buffer) \<Rightarrow> buffer \<Rightarrow> buffer \<Rightarrow> buffer" where
  "cfb_encrypt E prev plain =
     (if plain = [] then []
      else (let c = map2 (XOR) (take 16 plain) (E prev)
            in c @ cfb_encrypt E c (drop 16 plain)))"
  by pat_completeness auto
termination
  by (relation "measure (\<lambda>(E, prev, plain). length plain)") auto

function cfb_decrypt :: "(buffer \<Rightarrow> buffer) \<Rightarrow> buffer \<Rightarrow> buffer \<Rightarrow> buffer" where
  "cfb_decrypt E prev cipher =
     (if cipher = [] then []
      else map2 (XOR) (take 16 cipher) (E prev)
           @ cfb_decrypt E (take 16 cipher) (drop 16 cipher))"
  by pat_completeness auto
termination
  by (relation "measure (\<lambda>(E, prev, cipher). length cipher)") auto

declare cfb_encrypt.simps [simp del] cfb_decrypt.simps [simp del]

text \<open>\<^verbatim>\<open>buf.toString("utf8")\<close> on text of one-byte characters.\<close>

definition fromUtf8 :: "buffer \<Rightarrow> string" where
  "fromUtf8 bs = map (\<lambda>b. char_of (unat b)) bs"

definition show_int :: "int \<Rightarrow> string" where
  "show_int n = (if n < 0 then ''-'' @ show_nat (nat (- n)) else show_nat (nat n))"

record envelope =
  env_data :: string
  env_key :: string
  env_signature :: string

text \<open>
  \<^verbatim>\<open>Service.encryptPayloadData\<close>. The three calls of \<^verbatim>\<open>crypto.randomBytes\<close> and
  the random padding of the RSA encryption are arguments: \<open>key\<close> (32 bytes), \<open>iv\<close>
  (16 bytes) and \<open>pad\<close>.
\<close>

definition encryptPayloadData ::
  "'k platform \<Rightarrow> webclient \<Rightarrow> 'k state \<Rightarrow> 'k \<Rightarrow> json \<Rightarrow> buffer \<Rightarrow> buffer \<Rightarrow> buffer
     \<Rightarrow> (error + envelope) \<times> 'k state" where
  "encryptPayloadData L W st recipientPublicKey json key iv pad =
     (let text = json_stringify L json;
          encryptedData = cfb_encrypt (aes_block L key) iv (utf8 text);
          encryptedDataWithIV = encryptedData @ iv;
          encryptedKey = rsa_encrypt L recipientPublicKey pad key;
          signature = rsa_sign L (service_key (service st)) encryptedKey
      in case getPayloadSize W st of
           (Inl e, st1) \<Rightarrow> (Inl e, st1)
         | (Inr maxSize, st1) \<Rightarrow>
             if int (length encryptedDataWithIV) * 2 \<ge> maxSize
             then (Inl (PayloadDataLengthExceededError
                     (''Payload data length limit exceeded: length ''
                      @ show_nat (length encryptedDataWithIV) @ '', but max '' @ show_int maxSize)),
                   st1)
             else (Inr \<lparr> env_data = toHex encryptedDataWithIV,
                         env_key = toHex encryptedKey,
                         env_signature = toHex signature \<rparr>, st1))"

text \<open>
  \<^verbatim>\<open>Service.decryptPayloadJson\<close>. \<^verbatim>\<open>crypto.createDecipheriv\<close> throws on a key that
  is not 32 bytes long; the IV is 16 bytes by construction.
\<close>

definition decryptPayloadJson ::
  "'k platform \<Rightarrow> 'k Service \<Rightarrow> 'k \<Rightarrow> envelope \<Rightarrow> error + json" where
  "decryptPayloadJson L svc initiatorPublicKey json =
     (let encryptedDataWithIV = fromHex (env_data json);
          encryptedKey = fromHex (env_key json);
          signature = fromHex (env_signature json)
      in if \<not> rsa_verify L initiatorPublicKey encryptedKey signature
         then Inl (Error ''Failed payload signature verification'')
         else (case rsa_decrypt L (service_key svc) encryptedKey of
            Inl e \<Rightarrow> Inl e
          | Inr key \<Rightarrow>
              if length encryptedDataWithIV \<le> 16
              then Inl (Error ''Data field insufficiently long for both data and IV'')
              else (let ivBound = length encryptedDataWithIV - 16;
                        encryptedData = take ivBound encryptedDataWithIV;
                        iv = drop ivBound encryptedDataWithIV
                    in if length key \<noteq> 32 then Inl (Error ''Invalid key length'')
                       else json_parse L
                              (fromUtf8 (cfb_decrypt (aes_block L key) iv encryptedData)))))"

section \<open>More of the small instance\<close>

text \<open>
  A server that answers the information request and nothing else, a state of the
  instance with a given cached payload size, and fixed random bytes.
\<close>

definition toy_info :: json where
  "toy_info = JObj [(''productType'', JStr ''CS''), (''serverVersion'', JStr ''6.3.1''),
     (''buildVersion'', JStr ''1234''), (''appMinVersion'', JStr ''6.0.0'')]"

definition toy_web :: webclient where
  "toy_web log r =
     (if req_url r = ''https://Cipherise.example/info'' then Inr toy_info
      else Inl (Error ''not found''))"

definition toy_state :: "int option \<Rightarrow> nat state" where
  "toy_state cached = \<lparr> service = toy_service, payloadSize = cached, requests = [] \<rparr>"

definition toy_key :: buffer where "toy_key = replicate 32 1"
definition toy_iv :: buffer where "toy_iv = replicate 16 2"

text \<open>
  A second service, the recipient of an envelope, with the key pair 9; a payload as a
  device answers it; and the envelope the first service makes of it.
\<close>

definition toy_recipient :: "nat Service" where
  "toy_recipient = \<lparr> service_id = ''svc-2'', service_url = ''https://Cipherise.example/'',
     service_key = 9, sessionId = Null \<rparr>"

definition toy_payload :: json where
  "toy_payload = JObj [(''getResponse'', JObj [(''pin'', JStr ''1234'')])]"

definition toy_envelope :: envelope where
  "toy_envelope = \<lparr>
     env_data = ''7821646677516670736c6d70662139785b4a4b0953544f454354665a1a1802020202020202020202020202020202'',
     env_key = ''090101010101010101010101010101010101010101010101010101010101010101'',
     env_signature = ''07090101010101010101010101010101010101010101010101010101010101010101'' \<rparr>"

section \<open>Service: the access helpers and the session refresh\<close>

text \<open>\<^verbatim>\<open>this.sessionId ? this.sessionId : undefined\<close>: an empty session id is not sent.\<close>

definition session_header :: "nullable \<Rightarrow> string option" where
  "session_header sid = (case sid of Str s \<Rightarrow> if s = [] then None else Some s | _ \<Rightarrow> None)"

definition is_SessionExpiredError :: "error \<Rightarrow> bool" where
  "is_SessionExpiredError e = (case e of SessionExpiredError m \<Rightarrow> True | _ \<Rightarrow> False)"

text \<open>The request an access helper sends in the state \<open>st\<close>.\<close>

definition the_request :: "http_method \<Rightarrow> string \<Rightarrow> json option \<Rightarrow> 'k state \<Rightarrow> request" where
  "the_request m url form st =
     \<lparr> req_method = m, req_url = url, req_form = form,
       req_session = session_header (sessionId (service st)) \<rparr>"

text \<open>
  The four access helpers are the same loop \<^verbatim>\<open>for (let i = 0; i < 2; i++)\<close> around one
  call of the web client; \<open>attempts\<close> is that loop, its fourth argument the number
  of rounds left. When the rounds are used up the function ends without a
  \<^verbatim>\<open>return\<close>: the promise resolves to \<^verbatim>\<open>undefined\<close> (\<open>Inr None\<close>).

  \<^verbatim>\<open>refreshSession\<close> sends its two requests through \<^verbatim>\<open>getUri\<close> and
  \<^verbatim>\<open>postUri\<close>, the same helpers, so the two functions call each other and nothing in
  the code bounds the nesting. The first argument bounds it in the model: \<open>None\<close>
  says that the bound was reached before the call returned.
\<close>

fun attempts ::
  "nat \<Rightarrow> 'k platform \<Rightarrow> webclient \<Rightarrow> nat \<Rightarrow> http_method \<Rightarrow> string \<Rightarrow> json option
     \<Rightarrow> 'k state \<Rightarrow> ((error + json option) \<times> 'k state) option"
  and refreshSession ::
  "nat \<Rightarrow> 'k platform \<Rightarrow> webclient \<Rightarrow> 'k state \<Rightarrow> ((error + unit) \<times> 'k state) option" where
  "attempts fuel L W 0 m url form st = Some (Inr None, st)"
| "attempts 0 L W (Suc rounds) m url form st = None"
| "attempts (Suc fuel) L W (Suc rounds) m url form st =
     (case web_call W st (the_request m url form st) of
        (Inr body, st1) \<Rightarrow> Some (Inr (Some body), st1)
      | (Inl err, st1) \<Rightarrow>
          if is_SessionExpiredError err then
            (case refreshSession fuel L W st1 of
               None \<Rightarrow> None
             | Some (Inl e, st2) \<Rightarrow> Some (Inl e, st2)
             | Some (Inr u, st2) \<Rightarrow> attempts fuel L W rounds m url form st2)
          else Some (Inl err, st1))"
| "refreshSession 0 L W st = None"
| "refreshSession (Suc fuel) L W st =
     (case attempts fuel L W 2 GET
             (service_url (service st) @ ''sp/authenticate-service/'' @ service_id (service st))
             None st of
        None \<Rightarrow> None
      | Some (Inl e, st1) \<Rightarrow> Some (Inl e, st1)
      | Some (Inr None, st1) \<Rightarrow> Some (Inl TypeError, st1)
      | Some (Inr (Some challengeData), st1) \<Rightarrow>
          (case as_string (field challengeData ''spAuthChallenge'') of
             None \<Rightarrow> Some (Inl (Error ''Unexpected data type''), st1)
           | Some challenge \<Rightarrow>
               (case attempts fuel L W 2 POST
                       (service_url (service st1) @ ''sp/authenticate-service/'')
                       (Some (JObj
                          ((case field challengeData ''authToken'' of
                              None \<Rightarrow> [] | Some token \<Rightarrow> [(''authToken'', token)])
                           @ [(''spAuthChallengeSolution'',
                               JStr (toHex (rsa_sign L (service_key (service st1))
                                              (fromHex challenge))))])))
                       st1 of
                  None \<Rightarrow> None
                | Some (Inl e, st2) \<Rightarrow> Some (Inl e, st2)
                | Some (Inr None, st2) \<Rightarrow> Some (Inl TypeError, st2)
                | Some (Inr (Some responseData), st2) \<Rightarrow>
                    Some (Inr (),
                          st2\<lparr> service := (service st2)
                                 \<lparr> sessionId := as_nullable (field responseData ''sessionId'') \<rparr> \<rparr>))))"

definition Service_postUrl ::
  "nat \<Rightarrow> 'k platform \<Rightarrow> webclient \<Rightarrow> string \<Rightarrow> json \<Rightarrow> 'k state
     \<Rightarrow> ((error + json option) \<times> 'k state) option" where
  "Service_postUrl fuel L W url form st = attempts fuel L W 2 POST url (Some form) st"

definition Service_postUri ::
  "nat \<Rightarrow> 'k platform \<Rightarrow> webclient \<Rightarrow> string \<Rightarrow> json \<Rightarrow> 'k state
     \<Rightarrow> ((error + json option) \<times> 'k state) option" where
  "Service_postUri fuel L W uri form st =
     attempts fuel L W 2 POST (service_url (service st) @ uri) (Some form) st"

definition Service_getUrl ::
  "nat \<Rightarrow> 'k platform \<Rightarrow> webclient \<Rightarrow> string \<Rightarrow> 'k state
     \<Rightarrow> ((error + json option) \<times> 'k state) option" where
  "Service_getUrl fuel L W url st = attempts fuel L W 2 GET url None st"

definition Service_getUri ::
  "nat \<Rightarrow> 'k platform \<Rightarrow> webclient \<Rightarrow> string \<Rightarrow> 'k state
     \<Rightarrow> ((error + json option) \<times> 'k state) option" where
  "Service_getUri fuel L W uri st =
     attempts fuel L W 2 GET (service_url (service st) @ uri) None st"

text \<open>
  Three servers for the access helpers. The first refuses every request without the
  session \<open>s1\<close>, hands that session out on the two requests of
  \<^verbatim>\<open>refreshSession\<close>, and never accepts the address \<open>gone\<close>. The second refuses
  every request as expired and does not know the service. The third refuses every
  request as expired, those of \<^verbatim>\<open>refreshSession\<close> too.
\<close>

definition toy_server :: webclient where
  "toy_server log r =
     (if req_url r = ''https://Cipherise.example/sp/authenticate-service/svc-1''
         \<and> req_method r = GET
      then Inr (JObj [(''spAuthChallenge'', JStr ''0102''), (''authToken'', JStr ''tok'')])
      else if req_url r = ''https://Cipherise.example/sp/authenticate-service/''
         \<and> req_method r = POST
      then Inr (JObj [(''sessionId'', JStr ''s1'')])
      else if req_url r = ''https://Cipherise.example/gone''
      then Inl (SessionExpiredError ''Cipherise session expired'')
      else if req_session r = Some ''s1'' then Inr (JObj [(''ok'', JBool True)])
      else Inl (SessionExpiredError ''Cipherise session expired''))"

definition toy_revoked :: webclient where
  "toy_revoked log r =
     (if req_url r = ''https://Cipherise.example/sp/authenticate-service/svc-1''
      then Inl (Error ''Service not found'')
      else Inl (SessionExpiredError ''Cipherise session expired''))"

definition always_expired :: webclient where
  "always_expired log r = Inl (SessionExpiredError ''Cipherise session expired'')"

section \<open>Authentication: the shared core\<close>

datatype Authenticated = Success | Failure | Report | Cancel

record PayloadRequest =
  pr_get :: "string list"
  pr_set :: "(string \<times> string) list"

text \<open>
  \<^verbatim>\<open>PayloadResponse\<close>. The field \<^verbatim>\<open>set\<close> starts as \<^verbatim>\<open>false\<close> and is later
  assigned whatever the device answered, so it holds a JSON value or \<^verbatim>\<open>undefined\<close>.
\<close>

record PayloadResponse =
  ps_get :: "(string \<times> json) list"
  ps_set :: "json option"

definition new_PayloadResponse :: PayloadResponse where
  "new_PayloadResponse = \<lparr> ps_get = [], ps_set = Some (JBool False) \<rparr>"

record AuthenticationResult =
  res_authenticated :: Authenticated
  res_username :: "json option"
  res_payload :: PayloadResponse

text \<open>
  The fields of \<^verbatim>\<open>Authentication\<close>; \<open>appChallengeUrl\<close> is that of a
  \<^verbatim>\<open>WaveAuth\<close> and \<open>push\<close> tells the two subclasses apart.
\<close>

record Authentication =
  auth_logId :: string
  authChallenge :: buffer
  authLevel :: nat
  statusUrl :: string
  assertionUrl :: string
  verifyAuthUrl :: "string option"
  appChallengeUrl :: "string option"
  push :: bool

text \<open>Sequencing of calls that may throw, change the state, or not return.\<close>

definition bind_st ::
  "((error + 'a) \<times> 's) option \<Rightarrow> ('a \<Rightarrow> 's \<Rightarrow> ((error + 'b) \<times> 's) option)
     \<Rightarrow> ((error + 'b) \<times> 's) option" where
  "bind_st m f =
     (case m of
        None \<Rightarrow> None
      | Some (Inl e, s) \<Rightarrow> Some (Inl e, s)
      | Some (Inr a, s) \<Rightarrow> f a s)"

text \<open>
  \<^verbatim>\<open>Authentication.accept\<close>. \<^verbatim>\<open>JSON\<close> drops a property whose value is
  \<^verbatim>\<open>undefined\<close>; \<open>accepted\<close> is the value of \<^verbatim>\<open>authenticated && payloadValid\<close>,
  which need not be a boolean.
\<close>

definition accept ::
  "nat \<Rightarrow> 'k platform \<Rightarrow> webclient \<Rightarrow> Authentication \<Rightarrow> json option \<Rightarrow> string option
     \<Rightarrow> 'k state \<Rightarrow> ((error + json option) \<times> 'k state) option" where
  "accept fuel L W auth accepted failReason st =
     (case verifyAuthUrl auth of
        None \<Rightarrow>
          Some (Inl (Error (''Expected authentication verification URL. Has '' @ [CHR 0x60]
                            @ ''authenticate'' @ [CHR 0x60] @ '' been called?'')), st)
      | Some url \<Rightarrow>
          Service_postUrl fuel L W url
            (JObj ((case failReason of None \<Rightarrow> [] | Some r \<Rightarrow> [(''failReason'', JStr r)])
                   @ (case accepted of None \<Rightarrow> [] | Some v \<Rightarrow> [(''verified'', v)])))
            st)"

text \<open>\<^verbatim>\<open>PushAuth.retrieveAssertion\<close> and \<^verbatim>\<open>WaveAuth.retrieveAssertion\<close>.\<close>

definition retrieveAssertion ::
  "nat \<Rightarrow> 'k platform \<Rightarrow> webclient \<Rightarrow> Authentication \<Rightarrow> 'k state
     \<Rightarrow> ((error + json option) \<times> 'k state) option" where
  "retrieveAssertion fuel L W auth st =
     (if push auth then Service_getUrl fuel L W (assertionUrl auth) st
      else
        (let rest = [(''authenticationLevel'', JNum (int (authLevel auth))),
                     (''authenticationChallenge'', JStr (toHex (authChallenge auth))),
                     (''waitForAppSolution'', JBool True)]
         in case appChallengeUrl auth of
              None \<Rightarrow> Service_postUrl fuel L W (assertionUrl auth) (JObj rest) st
            | Some url \<Rightarrow>
                bind_st (Service_getUrl fuel L W url st) (\<lambda>challengeData st1.
                  case challengeData of
                    None \<Rightarrow> Some (Inl TypeError, st1)
                  | Some cd \<Rightarrow>
                      (case as_string (field cd ''appChallenge'') of
                         None \<Rightarrow> Some (Inl TypeError, st1)
                       | Some appChallenge \<Rightarrow>
                           Service_postUrl fuel L W (assertionUrl auth)
                             (JObj ((''appChallengeSolution'',
                                     JStr (toHex (Service_sign L (service st1)
                                                    (fromHex appChallenge)))) # rest))
                             st1))))"

text \<open>The envelope as the JSON object sent and received.\<close>

definition envelope_json :: "envelope \<Rightarrow> json" where
  "envelope_json e =
     JObj [(''data'', JStr (env_data e)), (''key'', JStr (env_key e)),
           (''signature'', JStr (env_signature e))]"

definition json_envelope :: "json option \<Rightarrow> envelope option" where
  "json_envelope j =
     (case j of
        None \<Rightarrow> None
      | Some v \<Rightarrow>
          (case (as_string (field v ''data''), as_string (field v ''key''),
                 as_string (field v ''signature'')) of
             (Some d, Some k, Some s) \<Rightarrow> Some \<lparr> env_data = d, env_key = k, env_signature = s \<rparr>
           | _ \<Rightarrow> None))"

definition mismatch_message :: "json option \<Rightarrow> string" where
  "mismatch_message name =
     ''Mismatching key signatures for '' @ [CHR 0x60] @ show_field (as_string name) @ [CHR 0x60]
     @ ''; re-authentication may be necessary''"

text \<open>
  The payload exchange of \<^verbatim>\<open>authenticateInternal\<close> (the body of
  \<^verbatim>\<open>if (payload !== undefined)\<close>): it yields the payload response and the value of
  \<^verbatim>\<open>payloadValid\<close>.
\<close>

definition payload_exchange ::
  "nat \<Rightarrow> 'k platform \<Rightarrow> webclient \<Rightarrow> json \<Rightarrow> 'k \<Rightarrow> PayloadRequest
     \<Rightarrow> buffer \<Rightarrow> buffer \<Rightarrow> buffer \<Rightarrow> 'k state
     \<Rightarrow> ((error + PayloadResponse \<times> json option) \<times> 'k state) option" where
  "payload_exchange fuel L W d publicKey p key iv pad st =
     bind_st (Some (encryptPayloadData L W st publicKey
                      (JObj [(''get'', JArr (map JStr (pr_get p))),
                             (''set'', JObj (map (\<lambda>(k, v). (k, JStr v)) (pr_set p)))])
                      key iv pad))
       (\<lambda>encrypted st1.
          case as_string (field d ''payloadURL'') of
            None \<Rightarrow> Some (Inl (Error ''options.uri is a required argument''), st1)
          | Some payloadURL \<Rightarrow>
              bind_st (Service_postUrl fuel L W payloadURL
                         (JObj [(''payload'', envelope_json encrypted)]) st1)
                (\<lambda>payloadResponseEncrypted st2.
                   case payloadResponseEncrypted of
                     None \<Rightarrow> Some (Inl TypeError, st2)
                   | Some pre \<Rightarrow>
                       (case json_envelope (field pre ''payload'') of
                          None \<Rightarrow> Some (Inl TypeError, st2)
                        | Some env \<Rightarrow>
                            (case decryptPayloadJson L (service st2) publicKey env of
                               Inl e \<Rightarrow> Some (Inl e, st2)
                             | Inr payloadResponseJson \<Rightarrow>
                                 if payloadResponseJson = JNull then Some (Inl TypeError, st2)
                                 else
                                   (let payloadSetEmpty = (pr_set p = []);
                                        setValue =
                                          (if payloadSetEmpty then Some (JBool False)
                                           else field payloadResponseJson ''setResponse'');
                                        getValue =
                                          (case field payloadResponseJson ''getResponse'' of
                                             Some (JObj props) \<Rightarrow> props
                                           | _ \<Rightarrow> [])
                                    in Some (Inr (\<lparr> ps_get = getValue, ps_set = setValue \<rparr>,
                                                  if payloadSetEmpty then Some (JBool True)
                                                  else setValue),
                                             st2))))))"

text \<open>
  \<^verbatim>\<open>Authentication.authenticateInternal\<close>, from the point where the assertion
  \<open>d\<close> has arrived and \<^verbatim>\<open>verifyAuthUrl\<close> is set.
\<close>

definition authenticate_assertion ::
  "nat \<Rightarrow> 'k platform \<Rightarrow> webclient \<Rightarrow> Authentication \<Rightarrow> json \<Rightarrow> PayloadRequest option
     \<Rightarrow> buffer \<Rightarrow> buffer \<Rightarrow> buffer \<Rightarrow> 'k state
     \<Rightarrow> ((error + AuthenticationResult) \<times> 'k state) option" where
  "authenticate_assertion fuel L W auth d payloadRequest key iv pad st =
     (let name = field d ''username''
      in if field d ''authenticated'' = Some (JStr ''cancelled'') then
           bind_st (accept fuel L W auth (Some (JBool False)) (Some ''cancelled'') st)
             (\<lambda>u st1. Some (Inr \<lparr> res_authenticated = Cancel, res_username = name,
                                   res_payload = new_PayloadResponse \<rparr>, st1))
         else if field d ''authenticated'' = Some (JStr ''reported'') then
           bind_st (accept fuel L W auth (Some (JBool False)) (Some ''reported'') st)
             (\<lambda>u st1. Some (Inr \<lparr> res_authenticated = Report, res_username = name,
                                   res_payload = new_PayloadResponse \<rparr>, st1))
         else if field d ''authenticated'' \<noteq> Some (JStr ''true'') then
           bind_st (accept fuel L W auth (Some (JBool False)) None st)
             (\<lambda>u st1. Some (Inr \<lparr> res_authenticated = Failure, res_username = name,
                                   res_payload = new_PayloadResponse \<rparr>, st1))
         else
           (case as_string (field d ''publicKey'') of
              None \<Rightarrow>
                (if as_string (field d ''keySignature'') = None \<or> as_string name = None
                 then Some (Inl TypeError, st)
                 else Some (Inl (Error ''This is not public key''), st))
            | Some pem \<Rightarrow>
                (case importPublicPem L pem of
                   Inl e \<Rightarrow> Some (Inl e, st)
                 | Inr publicKey \<Rightarrow>
                     (case (as_string (field d ''keySignature''), as_string name,
                            as_number (field d ''publicKeyLevel''),
                            as_string (field d ''deviceId'')) of
                        (Some keySignature, Some uname, Some level, Some devId) \<Rightarrow>
                          if \<not> verifySignature L (service st) (fromHex keySignature) uname devId
                                 publicKey (nat level)
                          then
                            bind_st (accept fuel L W auth (Some (JBool False))
                                       (Some (mismatch_message name)) st)
                              (\<lambda>u st1. Some (Inl (Error (mismatch_message name)), st1))
                          else
                            (case as_string (field d ''authenticationSolution'') of
                               None \<Rightarrow> Some (Inl TypeError, st)
                             | Some solution \<Rightarrow>
                                 (let verified =
                                        rsa_verify L publicKey (authChallenge auth) (fromHex solution)
                                  in bind_st
                                       (case payloadRequest of
                                          None \<Rightarrow> Some (Inr (new_PayloadResponse, Some (JBool True)), st)
                                        | Some p \<Rightarrow>
                                            payload_exchange fuel L W d publicKey p key iv pad st)
                                       (\<lambda>(payloadResponse, payloadValid) st1.
                                          bind_st
                                            (accept fuel L W auth
                                               (if verified then payloadValid else Some (JBool False))
                                               None st1)
                                            (\<lambda>u st2.
                                               Some (Inr \<lparr> res_authenticated =
                                                               (if verified then Success else Failure),
                                                             res_username = name,
                                                             res_payload = payloadResponse \<rparr>, st2)))))
                      | _ \<Rightarrow> Some (Inl TypeError, st)))))"

text \<open>\<^verbatim>\<open>Authentication.authenticateInternal\<close>; the object is returned as it was changed.\<close>

definition authenticateInternal ::
  "nat \<Rightarrow> 'k platform \<Rightarrow> webclient \<Rightarrow> Authentication \<Rightarrow> PayloadRequest option
     \<Rightarrow> buffer \<Rightarrow> buffer \<Rightarrow> buffer \<Rightarrow> 'k state
     \<Rightarrow> ((error + AuthenticationResult) \<times> Authentication \<times> 'k state) option" where
  "authenticateInternal fuel L W auth payloadRequest key iv pad st =
     (case retrieveAssertion fuel L W auth st of
        None \<Rightarrow> None
      | Some (Inl e, st1) \<Rightarrow> Some (Inl e, auth, st1)
      | Some (Inr None, st1) \<Rightarrow> Some (Inl TypeError, auth, st1)
      | Some (Inr (Some d), st1) \<Rightarrow>
          (let auth1 = auth\<lparr> verifyAuthUrl := as_string (field d ''verifyAuthenticationURL'') \<rparr>
           in case authenticate_assertion fuel L W auth1 d payloadRequest key iv pad st1 of
                None \<Rightarrow> None
              | Some (r, st2) \<Rightarrow> Some (r, auth1, st2)))"

text \<open>
  A push authentication of the instance and its server. The assertion reports a solved
  challenge for the device key 3 of user alice, with the key signature the service made
  at enrolment and the device's signature of the challenge. To the payload request the
  server returns the device's envelope, whose content is \<^verbatim>\<open>{"setResponse":false}\<close>.
\<close>

definition toy_challenge :: buffer where
  "toy_challenge = [1, 2, 3, 4, 5, 6, 7, 8, 9, 10, 11, 12, 13, 14, 15, 16]"

definition toy_auth :: Authentication where
  "toy_auth = \<lparr> auth_logId = ''log-7'', authChallenge = toy_challenge, authLevel = 2,
     statusUrl = ''https://Cipherise.example/status/1'',
     assertionUrl = ''https://Cipherise.example/assert/1'',
     verifyAuthUrl = None, appChallengeUrl = None, push = True \<rparr>"

definition toy_assertion :: json where
  "toy_assertion = JObj
     [(''verifyAuthenticationURL'', JStr ''https://Cipherise.example/verify/1''),
      (''username'', JStr ''alice''),
      (''authenticated'', JStr ''true''),
      (''deviceId'', JStr ''dev-1''),
      (''publicKey'', JStr ''kkk''),
      (''publicKeyLevel'', JNum 2),
      (''keySignature'', JStr (toHex (calculateSignature toy_lib toy_service ''alice'' ''dev-1'' 3 2))),
      (''authenticationSolution'', JStr (toHex (rsa_sign toy_lib 3 toy_challenge))),
      (''payloadURL'', JStr ''https://Cipherise.example/payload/1'')]"

definition toy_refusal :: envelope where
  "toy_refusal = \<lparr>
     env_data = ''7821706677516670736c6d7066213965075651020c02020202020202020202020202020202'',
     env_key = ''070101010101010101010101010101010101010101010101010101010101010101'',
     env_signature = ''03070101010101010101010101010101010101010101010101010101010101010101'' \<rparr>"

definition toy_auth_server :: webclient where
  "toy_auth_server log r =
     (if req_url r = ''https://Cipherise.example/info'' then Inr toy_info
      else if req_url r = ''https://Cipherise.example/assert/1'' then Inr toy_assertion
      else if req_url r = ''https://Cipherise.example/payload/1''
      then Inr (JObj [(''payload'', envelope_json toy_refusal)])
      else if req_url r = ''https://Cipherise.example/verify/1''
      then Inr (JObj [(''ok'', JBool True)])
      else Inl (Error ''not found''))"

section \<open>Serialization\<close>

text \<open>
  The values the SDK hands to \<^verbatim>\<open>msgpack().encode\<close> and gets from
  \<^verbatim>\<open>msgpack().decode\<close>. The only objects it encodes map a level to the PEM text of a
  key: \<open>MObj\<close>. \<open>MUndef\<close> is \<^verbatim>\<open>undefined\<close>, \<open>MNil\<close> is \<^verbatim>\<open>null\<close>. The codec is not
  part of the repository; it is a pair of functions.
\<close>

datatype mp =
    MUndef
  | MNil
  | MBool bool
  | MInt int
  | MStr string
  | MBin buffer
  | MArr "mp list"
  | MObj "(nat \<times> string) list"

record codec =
  encode :: "mp \<Rightarrow> buffer"
  decode :: "buffer \<Rightarrow> error + mp"

text \<open>
  The deserializers cast the components (\<^verbatim>\<open>arr[2] as string\<close>) without a check. The
  model reads a component at the type the cast names; a component of another type is
  read as the empty value of that type.
\<close>

definition mp_string :: "mp \<Rightarrow> string" where
  "mp_string v = (case v of MStr s \<Rightarrow> s | _ \<Rightarrow> [])"

definition mp_buffer :: "mp \<Rightarrow> buffer" where
  "mp_buffer v = (case v of MBin b \<Rightarrow> b | _ \<Rightarrow> [])"

definition mp_number :: "mp \<Rightarrow> nat" where
  "mp_number v = (case v of MInt n \<Rightarrow> nat n | _ \<Rightarrow> 0)"

definition mp_object :: "mp \<Rightarrow> (nat \<times> string) list" where
  "mp_object v = (case v of MObj ps \<Rightarrow> ps | _ \<Rightarrow> [])"

text \<open>A component cast to \<^verbatim>\<open>string | null\<close>, and a field of that kind as a component.\<close>

definition mp_nullable :: "mp \<Rightarrow> nullable" where
  "mp_nullable v = (case v of MStr s \<Rightarrow> Str s | MUndef \<Rightarrow> Undefined | _ \<Rightarrow> Null)"

definition nullable_mp :: "nullable \<Rightarrow> mp" where
  "nullable_mp v = (case v of Undefined \<Rightarrow> MUndef | Null \<Rightarrow> MNil | Str s \<Rightarrow> MStr s)"

text \<open>\<^verbatim>\<open>x === undefined ? null : x\<close> and \<^verbatim>\<open>x === null ? undefined : x\<close>.\<close>

definition undefined_to_null :: "nullable \<Rightarrow> nullable" where
  "undefined_to_null x = (if x = Undefined then Null else x)"

definition null_to_undefined :: "nullable \<Rightarrow> nullable" where
  "null_to_undefined x = (if x = Null then Undefined else x)"

text \<open>
  \<^verbatim>\<open>msgpack().encode\<close> does not encode \<^verbatim>\<open>undefined\<close>: it throws when it meets one, in
  the value or in a component of it, and encodes every other value.
\<close>

fun has_undefined :: "mp \<Rightarrow> bool" where
  "has_undefined MUndef = True"
| "has_undefined (MArr xs) = list_ex has_undefined xs"
| "has_undefined v = False"

definition msgpack_encode :: "codec \<Rightarrow> mp \<Rightarrow> error + buffer" where
  "msgpack_encode C v =
     (if has_undefined v then Inl (Error ''undefined is not encodable in msgpack!'')
      else Inr (encode C v))"

definition SERIALIZED_VERSION :: string where
  "SERIALIZED_VERSION = ''6.0.0''"

subsection \<open>Service\<close>

definition Service_Header :: string where
  "Service_Header = ''CiphSrvc''"

text \<open>
  Every \<^verbatim>\<open>serialize\<close> encodes one array literal; the array is named apart from its
  encoding.
\<close>

definition Service_array :: "'k platform \<Rightarrow> 'k Service \<Rightarrow> mp" where
  "Service_array L svc =
     MArr [MStr Service_Header, MStr SERIALIZED_VERSION, MStr (service_id svc),
           MBin (exportPrivateDer L (service_key svc)), MNil, nullable_mp (sessionId svc)]"

definition Service_serialize :: "'k platform \<Rightarrow> codec \<Rightarrow> 'k Service \<Rightarrow> error + buffer" where
  "Service_serialize L C svc = msgpack_encode C (Service_array L svc)"

text \<open>
  \<^verbatim>\<open>Client.deserializeService\<close>; \<open>url\<close> is the address of the client's web client,
  which the new service shares.
\<close>

definition deserializeService ::
  "'k platform \<Rightarrow> codec \<Rightarrow> string \<Rightarrow> buffer \<Rightarrow> error + 'k Service" where
  "deserializeService L C url bytes =
     (case decode C bytes of
        Inl e \<Rightarrow> Inl e
      | Inr (MArr arr) \<Rightarrow>
          if length arr = 0
          then Inl (Error ''Attempted to deserialize service, but no components'')
          else if arr ! 0 \<noteq> MStr Service_Header
          then Inl (Error ''Attempted to deserialize service, but header not found'')
          else if length arr = 5 then
            (case importPrivateDer L (mp_buffer (arr ! 2)) of
               Inl e \<Rightarrow> Inl e
             | Inr k \<Rightarrow> Inr \<lparr> service_id = mp_string (arr ! 1), service_url = url,
                               service_key = k, sessionId = mp_nullable (arr ! 4) \<rparr>)
          else if length arr = 6 then
            (if arr ! 1 \<noteq> MStr SERIALIZED_VERSION
             then Inl (Error ''Attempted to deserialize service, but header not found'')
             else (case importPrivateDer L (mp_buffer (arr ! 3)) of
                Inl e \<Rightarrow> Inl e
              | Inr k \<Rightarrow> Inr \<lparr> service_id = mp_string (arr ! 2), service_url = url,
                                service_key = k, sessionId = mp_nullable (arr ! 5) \<rparr>))
          else Inl (Error ''Attempted to deserialize service, but incorrect number of components'')
      | Inr _ \<Rightarrow> Inl (Error ''Attempted to deserialize service, but buffer was invalid''))"

definition Service_equals :: "'k platform \<Rightarrow> 'k Service \<Rightarrow> 'k Service \<Rightarrow> bool" where
  "Service_equals L a b \<longleftrightarrow>
     service_id a = service_id b \<and> service_url a = service_url b
     \<and> exportPrivateDer L (service_key a) = exportPrivateDer L (service_key b)"

subsection \<open>Device\<close>

definition Device_Header :: string where
  "Device_Header = ''CiphDvce''"

definition Device_array :: "'k platform \<Rightarrow> 'k Device \<Rightarrow> mp" where
  "Device_array L dev =
     MArr [MStr Device_Header, MStr (device_id dev), MStr (device_name dev),
           MObj (publicKeyMapToObject L (device_keys dev))]"

definition Device_serialize :: "'k platform \<Rightarrow> codec \<Rightarrow> 'k Device \<Rightarrow> error + buffer" where
  "Device_serialize L C dev = msgpack_encode C (Device_array L dev)"

definition Device_deserialize :: "'k platform \<Rightarrow> codec \<Rightarrow> buffer \<Rightarrow> error + 'k Device" where
  "Device_deserialize L C bytes =
     (case decode C bytes of
        Inl e \<Rightarrow> Inl e
      | Inr (MArr arr) \<Rightarrow>
          if length arr \<noteq> 4
          then Inl (Error ''Attempted to deserialize device, but incorrect number of components'')
          else if arr ! 0 \<noteq> MStr Device_Header
          then Inl (Error ''Attempted to deserialize device, but header not found'')
          else (case objectToPublicKeyMap L (mp_object (arr ! 3)) of
             Inl e \<Rightarrow> Inl e
           | Inr keys \<Rightarrow> Inr \<lparr> device_id = mp_string (arr ! 1),
                                device_name = mp_string (arr ! 2), device_keys = keys \<rparr>)
      | Inr _ \<Rightarrow> Inl (Error ''Attempted to deserialize device, but buffer was invalid''))"

text \<open>The object of the keys as \<^verbatim>\<open>JSON.stringify\<close> sees it.\<close>

definition keys_json :: "(nat \<times> string) list \<Rightarrow> json" where
  "keys_json obj = JObj (map (\<lambda>(level, pem). (show_nat level, JStr pem)) obj)"

definition Device_equals :: "'k platform \<Rightarrow> 'k Device \<Rightarrow> 'k Device \<Rightarrow> bool" where
  "Device_equals L a b \<longleftrightarrow>
     device_id a = device_id b \<and> device_name a = device_name b
     \<and> json_stringify L (keys_json (publicKeyMapToObject L (device_keys a)))
       = json_stringify L (keys_json (publicKeyMapToObject L (device_keys b)))"

subsection \<open>Enrolment\<close>

record 'k Enrolment =
  enrol_service :: "'k Service"
  enrol_logId :: string
  enrol_WaveCodeUrl :: string
  enrol_directEnrolUrl :: string
  enrol_statusUrl :: string
  enrol_validateUrl :: string
  enrol_username :: string
  enrol_publicKeys :: "(nat \<times> 'k) list"
  enrol_deviceId :: string
  enrol_confirmationUrl :: string

definition Enrolment_Header :: string where
  "Enrolment_Header = ''CiphEnrl''"

definition Enrolment_array :: "'k platform \<Rightarrow> 'k Enrolment \<Rightarrow> mp" where
  "Enrolment_array L e =
     MArr [MStr Enrolment_Header, MStr SERIALIZED_VERSION, MStr (enrol_logId e),
           MStr (enrol_WaveCodeUrl e), MStr (enrol_directEnrolUrl e),
           MStr (enrol_statusUrl e), MStr (enrol_validateUrl e),
           MStr (enrol_username e), MStr (enrol_confirmationUrl e),
           MStr (enrol_deviceId e),
           MObj (publicKeyMapToObject L (enrol_publicKeys e))]"

definition Enrolment_serialize ::
  "'k platform \<Rightarrow> codec \<Rightarrow> 'k Enrolment \<Rightarrow> error + buffer" where
  "Enrolment_serialize L C e = msgpack_encode C (Enrolment_array L e)"

text \<open>\<^verbatim>\<open>Service.deserializeEnrolment\<close>; \<open>svc\<close> is the service it is called on.\<close>

definition deserializeEnrolment ::
  "'k platform \<Rightarrow> codec \<Rightarrow> 'k Service \<Rightarrow> buffer \<Rightarrow> error + 'k Enrolment" where
  "deserializeEnrolment L C svc bytes =
     (case decode C bytes of
        Inl e \<Rightarrow> Inl e
      | Inr (MArr arr) \<Rightarrow>
          if length arr \<noteq> 11
          then Inl (Error ''Attempted to deserialize enrolment, but incorrect number of components'')
          else if arr ! 0 \<noteq> MStr Enrolment_Header
          then Inl (Error ''Attempted to deserialize enrolment, but header not found'')
          else if arr ! 1 \<noteq> MStr SERIALIZED_VERSION
          then Inl (Error ''Attempted to deserialize PushAuth, but wrong version'')
          else (case objectToPublicKeyMap L (mp_object (arr ! 10)) of
             Inl e \<Rightarrow> Inl e
           | Inr keys \<Rightarrow>
               Inr \<lparr> enrol_service = svc, enrol_logId = mp_string (arr ! 2),
                     enrol_WaveCodeUrl = mp_string (arr ! 3),
                     enrol_directEnrolUrl = mp_string (arr ! 4),
                     enrol_statusUrl = mp_string (arr ! 5),
                     enrol_validateUrl = mp_string (arr ! 6),
                     enrol_username = mp_string (arr ! 7),
                     enrol_publicKeys = keys,
                     enrol_deviceId = mp_string (arr ! 9),
                     enrol_confirmationUrl = mp_string (arr ! 8) \<rparr>)
      | Inr _ \<Rightarrow> Inl (Error ''Attempted to deserialize enrolment, but buffer was invalid''))"

definition Enrolment_equals :: "'k platform \<Rightarrow> 'k Enrolment \<Rightarrow> 'k Enrolment \<Rightarrow> bool" where
  "Enrolment_equals L a b \<longleftrightarrow>
     Service_equals L (enrol_service a) (enrol_service b)
     \<and> enrol_logId a = enrol_logId b
     \<and> enrol_WaveCodeUrl a = enrol_WaveCodeUrl b
     \<and> enrol_directEnrolUrl a = enrol_directEnrolUrl b
     \<and> enrol_statusUrl a = enrol_statusUrl b
     \<and> enrol_validateUrl a = enrol_validateUrl b
     \<and> enrol_username a = enrol_username b
     \<and> json_stringify L (keys_json (publicKeyMapToObject L (enrol_publicKeys a)))
       = json_stringify L (keys_json (publicKeyMapToObject L (enrol_publicKeys b)))
     \<and> enrol_deviceId a = enrol_deviceId b
     \<and> enrol_confirmationUrl a = enrol_confirmationUrl b"

subsection \<open>PushAuth\<close>

record 'k PushAuth =
  push_service :: "'k Service"
  push_logId :: string
  push_authChallenge :: buffer
  push_authLevel :: nat
  push_username :: string
  push_device :: "'k Device"
  push_statusUrl :: string
  push_assertionUrl :: string
  push_verifyAuthUrl :: nullable

definition PushAuth_Header :: string where
  "PushAuth_Header = ''CiphUsrP''"

text \<open>The array of \<^verbatim>\<open>PushAuth.serialize\<close>; \<open>device\<close> is \<^verbatim>\<open>this.device.serialize()\<close>.\<close>

definition PushAuth_array :: "'k PushAuth \<Rightarrow> buffer \<Rightarrow> mp" where
  "PushAuth_array a device =
     MArr [MStr PushAuth_Header, MStr SERIALIZED_VERSION, MStr (push_logId a),
           MBin (push_authChallenge a), MInt (int (push_authLevel a)),
           MStr (push_username a), MBin device,
           MStr (push_statusUrl a), MStr (push_assertionUrl a),
           nullable_mp (undefined_to_null (push_verifyAuthUrl a))]"

definition PushAuth_serialize :: "'k platform \<Rightarrow> codec \<Rightarrow> 'k PushAuth \<Rightarrow> error + buffer" where
  "PushAuth_serialize L C a =
     (case Device_serialize L C (push_device a) of
        Inl e \<Rightarrow> Inl e
      | Inr device \<Rightarrow> msgpack_encode C (PushAuth_array a device))"

definition deserializePushAuth ::
  "'k platform \<Rightarrow> codec \<Rightarrow> 'k Service \<Rightarrow> buffer \<Rightarrow> error + 'k PushAuth" where
  "deserializePushAuth L C svc bytes =
     (case decode C bytes of
        Inl e \<Rightarrow> Inl e
      | Inr (MArr arr) \<Rightarrow>
          if length arr \<noteq> 10
          then Inl (Error ''Attempted to deserialize PushAuth, but incorrect number of components'')
          else if arr ! 0 \<noteq> MStr PushAuth_Header
          then Inl (Error ''Attempted to deserialize PushAuth, but header not found'')
          else if arr ! 1 \<noteq> MStr SERIALIZED_VERSION
          then Inl (Error ''Attempted to deserialize PushAuth, but wrong version'')
          else (case Device_deserialize L C (mp_buffer (arr ! 6)) of
             Inl e \<Rightarrow> Inl e
           | Inr dev \<Rightarrow>
               Inr \<lparr> push_service = svc, push_logId = mp_string (arr ! 2),
                     push_authChallenge = mp_buffer (arr ! 3),
                     push_authLevel = mp_number (arr ! 4),
                     push_username = mp_string (arr ! 5),
                     push_device = dev,
                     push_statusUrl = mp_string (arr ! 7),
                     push_assertionUrl = mp_string (arr ! 8),
                     push_verifyAuthUrl = null_to_undefined (mp_nullable (arr ! 9)) \<rparr>)
      | Inr _ \<Rightarrow> Inl (Error ''Attempted to deserialize PushAuth, but buffer was invalid''))"

definition PushAuth_equals :: "'k platform \<Rightarrow> 'k PushAuth \<Rightarrow> 'k PushAuth \<Rightarrow> bool" where
  "PushAuth_equals L a b \<longleftrightarrow>
     Service_equals L (push_service a) (push_service b)
     \<and> push_logId a = push_logId b
     \<and> push_authChallenge a = push_authChallenge b
     \<and> push_authLevel a = push_authLevel b
     \<and> push_username a = push_username b
     \<and> Device_equals L (push_device a) (push_device b)
     \<and> push_statusUrl a = push_statusUrl b
     \<and> push_assertionUrl a = push_assertionUrl b
     \<and> push_verifyAuthUrl a = push_verifyAuthUrl b"

subsection \<open>WaveAuth\<close>

record 'k WaveAuth =
  wave_service :: "'k Service"
  wave_logId :: string
  wave_authChallenge :: buffer
  wave_authLevel :: nat
  wave_initiatorUrl :: string
  wave_WaveCodeUrl :: string
  wave_statusUrl :: string
  wave_assertionUrl :: string
  wave_appChallengeUrl :: nullable
  wave_verifyAuthUrl :: nullable

definition WaveAuth_Header :: string where
  "WaveAuth_Header = ''CiphUsrW''"

definition WaveAuth_array :: "'k WaveAuth \<Rightarrow> mp" where
  "WaveAuth_array a =
     MArr [MStr WaveAuth_Header, MStr SERIALIZED_VERSION, MStr (wave_logId a),
           MBin (wave_authChallenge a), MInt (int (wave_authLevel a)),
           MStr (wave_initiatorUrl a), MStr (wave_WaveCodeUrl a),
           MStr (wave_statusUrl a), MStr (wave_assertionUrl a),
           nullable_mp (undefined_to_null (wave_appChallengeUrl a)),
           nullable_mp (undefined_to_null (wave_verifyAuthUrl a))]"

definition WaveAuth_serialize :: "codec \<Rightarrow> 'k WaveAuth \<Rightarrow> error + buffer" where
  "WaveAuth_serialize C a = msgpack_encode C (WaveAuth_array a)"

definition deserializeWaveAuth :: "codec \<Rightarrow> 'k Service \<Rightarrow> buffer \<Rightarrow> error + 'k WaveAuth" where
  "deserializeWaveAuth C svc bytes =
     (case decode C bytes of
        Inl e \<Rightarrow> Inl e
      | Inr (MArr arr) \<Rightarrow>
          if length arr \<noteq> 11
          then Inl (Error ''Attempted to deserialize WaveAuth, but incorrect number of components'')
          else if arr ! 0 \<noteq> MStr WaveAuth_Header
          then Inl (Error ''Attempted to deserialize WaveAuth, but header not found'')
          else if arr ! 1 \<noteq> MStr SERIALIZED_VERSION
          then Inl (Error ''Attempted to deserialize WaveAuth, but wrong version'')
          else Inr \<lparr> wave_service = svc, wave_logId = mp_string (arr ! 2),
                     wave_authChallenge = mp_buffer (arr ! 3),
                     wave_authLevel = mp_number (arr ! 4),
                     wave_initiatorUrl = mp_string (arr ! 5),
                     wave_WaveCodeUrl = mp_string (arr ! 6),
                     wave_statusUrl = mp_string (arr ! 7),
                     wave_assertionUrl = mp_string (arr ! 8),
                     wave_appChallengeUrl = null_to_undefined (mp_nullable (arr ! 9)),
                     wave_verifyAuthUrl = null_to_undefined (mp_nullable (arr ! 10)) \<rparr>
      | Inr _ \<Rightarrow> Inl (Error ''Attempted to deserialize WaveAuth, but buffer was invalid''))"

definition WaveAuth_equals :: "'k platform \<Rightarrow> 'k WaveAuth \<Rightarrow> 'k WaveAuth \<Rightarrow> bool" where
  "WaveAuth_equals L a b \<longleftrightarrow>
     Service_equals L (wave_service a) (wave_service b)
     \<and> wave_logId a = wave_logId b
     \<and> wave_authChallenge a = wave_authChallenge b
     \<and> wave_authLevel a = wave_authLevel b
     \<and> wave_initiatorUrl a = wave_initiatorUrl b
     \<and> wave_WaveCodeUrl a = wave_WaveCodeUrl b
     \<and> wave_statusUrl a = wave_statusUrl b
     \<and> wave_assertionUrl a = wave_assertionUrl b
     \<and> wave_appChallengeUrl a = wave_appChallengeUrl b
     \<and> wave_verifyAuthUrl a = wave_verifyAuthUrl b"

subsection \<open>A codec for the small instance\<close>

text \<open>
  MessagePack restricted to the short forms: \<^verbatim>\<open>nil\<close>, the booleans, positive fixint,
  fixstr and str 8, bin 8, fixarray, and fixmap with decimal strings as keys. It has no
  form for \<^verbatim>\<open>undefined\<close>, which \<open>msgpack_encode\<close> refuses before any byte is written.
\<close>

definition str_bytes :: "string \<Rightarrow> buffer" where
  "str_bytes s =
     (if length s < 32 then [0xA0 + word_of_nat (length s)] else [0xD9, word_of_nat (length s)])
     @ utf8 s"

fun mp_bytes :: "mp \<Rightarrow> buffer" where
  "mp_bytes MUndef = []"
| "mp_bytes MNil = [0xC0]"
| "mp_bytes (MBool b) = [if b then 0xC3 else 0xC2]"
| "mp_bytes (MInt n) = [word_of_int n]"
| "mp_bytes (MStr s) = str_bytes s"
| "mp_bytes (MBin b) = [0xC4, word_of_nat (length b)] @ b"
| "mp_bytes (MArr xs) = [0x90 + word_of_nat (length xs)] @ concat (map mp_bytes xs)"
| "mp_bytes (MObj ps) =
     [0x80 + word_of_nat (length ps)]
     @ concat (map (\<lambda>p. str_bytes (show_nat (fst p)) @ str_bytes (snd p)) ps)"

definition take_str :: "nat \<Rightarrow> buffer \<Rightarrow> (mp \<times> buffer) option" where
  "take_str n bs = (if length bs < n then None else Some (MStr (fromUtf8 (take n bs)), drop n bs))"

fun mp_pairs :: "mp list \<Rightarrow> (nat \<times> string) list option" where
  "mp_pairs [] = Some []"
| "mp_pairs [x] = None"
| "mp_pairs (a # b # rest) =
     (case (a, b) of
        (MStr k, MStr v) \<Rightarrow>
          if k \<noteq> [] \<and> list_all is_digit k
          then map_option (\<lambda>ps. (digits_value k, v) # ps) (mp_pairs rest)
          else None
      | _ \<Rightarrow> None)"

fun mp_value :: "nat \<Rightarrow> buffer \<Rightarrow> (mp \<times> buffer) option"
  and mp_values :: "nat \<Rightarrow> nat \<Rightarrow> buffer \<Rightarrow> (mp list \<times> buffer) option" where
  "mp_value 0 bs = None"
| "mp_value (Suc f) [] = None"
| "mp_value (Suc f) (b # bs) =
     (let t = unat b in
      if t = 0xC0 then Some (MNil, bs)
      else if t = 0xC2 then Some (MBool False, bs)
      else if t = 0xC3 then Some (MBool True, bs)
      else if t < 0x80 then Some (MInt (int t), bs)
      else if 0xA0 \<le> t \<and> t < 0xC0 then take_str (t - 0xA0) bs
      else if t = 0xD9 then (case bs of [] \<Rightarrow> None | n # r \<Rightarrow> take_str (unat n) r)
      else if t = 0xC4 then
        (case bs of
           [] \<Rightarrow> None
         | n # r \<Rightarrow> if length r < unat n then None
                    else Some (MBin (take (unat n) r), drop (unat n) r))
      else if 0x90 \<le> t \<and> t < 0xA0 then
        (case mp_values f (t - 0x90) bs of None \<Rightarrow> None | Some (vs, r) \<Rightarrow> Some (MArr vs, r))
      else if 0x80 \<le> t \<and> t < 0x90 then
        (case mp_values f (2 * (t - 0x80)) bs of
           None \<Rightarrow> None
         | Some (vs, r) \<Rightarrow> (case mp_pairs vs of None \<Rightarrow> None | Some ps \<Rightarrow> Some (MObj ps, r)))
      else None)"
| "mp_values f 0 bs = Some ([], bs)"
| "mp_values 0 (Suc n) bs = None"
| "mp_values (Suc f) (Suc n) bs =
     (case mp_value f bs of
        None \<Rightarrow> None
      | Some (v, r) \<Rightarrow>
          (case mp_values f n r of None \<Rightarrow> None | Some (vs, r') \<Rightarrow> Some (v # vs, r')))"

definition toy_decode :: "buffer \<Rightarrow> error + mp" where
  "toy_decode bs =
     (case mp_value (Suc (length bs)) bs of
        Some (v, []) \<Rightarrow> Inr v
      | _ \<Rightarrow> Inl (Error ''Incomplete buffer''))"

definition toy_codec :: codec where
  "toy_codec = \<lparr> encode = mp_bytes, decode = toy_decode \<rparr>"

text \<open>One entity of each kind, for the instance.\<close>

definition toy_device :: "nat Device" where
  "toy_device = \<lparr> device_id = ''dev-1'', device_name = ''Phone'', device_keys = [(2, 3), (1, 1)] \<rparr>"

definition toy_enrolment :: "nat Enrolment" where
  "toy_enrolment = \<lparr> enrol_service = toy_service, enrol_logId = ''log-1'',
     enrol_WaveCodeUrl = ''w'', enrol_directEnrolUrl = ''d'', enrol_statusUrl = ''s'',
     enrol_validateUrl = ''v'', enrol_username = ''alice'', enrol_publicKeys = [(1, 1)],
     enrol_deviceId = ''dev-1'', enrol_confirmationUrl = ''c'' \<rparr>"

definition toy_push :: "nat PushAuth" where
  "toy_push = \<lparr> push_service = toy_service, push_logId = ''log-2'',
     push_authChallenge = [1, 2, 3], push_authLevel = 2, push_username = ''alice'',
     push_device = toy_device, push_statusUrl = ''s'', push_assertionUrl = ''a'',
     push_verifyAuthUrl = Undefined \<rparr>"

definition toy_wave :: "nat WaveAuth" where
  "toy_wave = \<lparr> wave_service = toy_service, wave_logId = ''log-3'',
     wave_authChallenge = [1, 2, 3], wave_authLevel = 4, wave_initiatorUrl = ''i'',
     wave_WaveCodeUrl = ''w'', wave_statusUrl = ''s'', wave_assertionUrl = ''a'',
     wave_appChallengeUrl = Str ''c'', wave_verifyAuthUrl = Undefined \<rparr>"

text \<open>
  The same authentication started against a server that answers
  \<^verbatim>\<open>"appAuthenticationURL": null\<close>: \<^verbatim>\<open>Service.WaveAuth\<close> stores the property as it is.
\<close>

definition toy_wave_null :: "nat WaveAuth" where
  "toy_wave_null = toy_wave \<lparr> wave_appChallengeUrl := Null \<rparr>"

chapter \<open>Properties\<close>

section \<open>Status mapping\<close>

text \<open>
  C10. When the status response of a PushAuth or WaveAuth carries a status text outside
  the six recognised values, \<open>getState\<close> throws an error that names the unexpected
  status and the session's log identifier; \<open>Enrolment.getState\<close> maps every status
  outside its own vocabulary to the Unknown state and throws nothing.
\<close>

theorem getState_unrecognised_throws:
  assumes "st \<notin> Some ` set recognised_status"
  shows "PushAuth_getState logId (Inr (Some st))
           = Inl (Error (''Unexpected status '' @ show_field st
                         @ '' for authentication ('' @ logId @ '')''))
       \<and> WaveAuth_getState logId (Inr (Some st))
           = Inl (Error (''Unexpected status '' @ show_field st
                         @ '' for authentication ('' @ logId @ '')''))
       \<and> (st \<notin> Some ` set enrolment_status \<longrightarrow> Enrolment_getState (Inr (Some st)) = Inr EUnknown)"
  using assms
  by (auto simp add: PushAuth_getState_def WaveAuth_getState_def Authentication_getState_def
      Enrolment_getState_def recognised_status_def enrolment_status_def)

theorem getState_unrecognised_throws_witness:
  "Some ''paused'' \<notin> Some ` set recognised_status
   \<and> PushAuth_getState ''log-7'' (Inr (Some (Some ''paused'')))
       = Inl (Error ''Unexpected status paused for authentication (log-7)'')
   \<and> WaveAuth_getState ''log-7'' (Inr (Some (Some ''paused'')))
       = Inl (Error ''Unexpected status paused for authentication (log-7)'')
   \<and> Enrolment_getState (Inr (Some (Some ''paused''))) = Inr EUnknown"
proof -
  have h: "Some ''paused'' \<notin> Some ` set recognised_status"
    by (simp add: recognised_status_def)
  have e: "Some ''paused'' \<notin> Some ` set enrolment_status"
    by (simp add: enrolment_status_def)
  from getState_unrecognised_throws [OF h, of "''log-7''"] h e show ?thesis
    by (simp add: show_field_def)
qed

section \<open>Facts about the encodings\<close>

lemma hex_val_digit: "n < 16 \<Longrightarrow> hex_val (hex_digit n) = Some n"
proof -
  assume small: "n < 16"
  have "list_all (\<lambda>n. hex_val (hex_digit n) = Some n) [0..<16]"
    by code_simp
  with small show ?thesis
    by (simp add: list_all_iff)
qed

lemma hex_digit_inj: "n < 16 \<Longrightarrow> m < 16 \<Longrightarrow> hex_digit n = hex_digit m \<Longrightarrow> n = m"
  using hex_val_digit by (metis option.inject)

lemma byte_nibbles: "unat (b :: byte) div 16 < 16"
proof -
  have "unat b < 256" using unsigned_less [of b] by simp
  then show ?thesis by simp
qed

lemma fromHex_toHex: "fromHex (toHex bs) = bs"
  by (induction bs) (simp_all add: hex_val_digit byte_nibbles)

lemma length_toHex: "length (toHex bs) = 2 * length bs"
  by (induction bs) simp_all

lemma inj_utf8: "utf8 s = utf8 t \<Longrightarrow> s = t"
proof (induction s arbitrary: t)
  case Nil then show ?case by (simp add: utf8_def)
next
  case (Cons c s)
  then obtain d t' where t: "t = d # t'" by (cases t) (auto simp add: utf8_def)
  from Cons.prems t have h: "(word_of_nat (of_char c) :: byte) = word_of_nat (of_char d)"
    and r: "utf8 s = utf8 t'" by (simp_all add: utf8_def)
  from h have "unat (word_of_nat (of_char c) :: byte) = unat (word_of_nat (of_char d) :: byte)" by simp
  then have "(of_char c :: nat) = of_char d"
    by (simp add: unat_of_nat take_bit_eq_mod)
  then have "c = d" by simp
  with Cons.IH [OF r] t show ?case by simp
qed

lemma show_nat_nonempty: "show_nat n \<noteq> []"
  by (subst show_nat.simps) simp

lemma show_nat_inj: "show_nat n = show_nat m \<Longrightarrow> n = m"
proof (induction n arbitrary: m rule: show_nat.induct)
  case (1 n)
  show ?case
  proof (cases "n < 10")
    case True
    show ?thesis
    proof (cases "m < 10")
      case m: True
      from "1.prems" True m have "hex_digit n = hex_digit m"
        by (simp add: show_nat.simps [of n] show_nat.simps [of m])
      with True m show ?thesis by (intro hex_digit_inj) simp_all
    next
      case m: False
      from "1.prems" True m have "[hex_digit n] = show_nat (m div 10) @ [hex_digit (m mod 10)]"
        by (simp add: show_nat.simps [of n] show_nat.simps [of m])
      then have "show_nat (m div 10) = []" by simp
      with show_nat_nonempty show ?thesis by blast
    qed
  next
    case False
    show ?thesis
    proof (cases "m < 10")
      case m: True
      from "1.prems" False m have "show_nat (n div 10) @ [hex_digit (n mod 10)] = [hex_digit m]"
        by (simp add: show_nat.simps [of n] show_nat.simps [of m])
      then have "show_nat (n div 10) = []" by simp
      with show_nat_nonempty show ?thesis by blast
    next
      case m: False
      from "1.prems" False m have
        "show_nat (n div 10) @ [hex_digit (n mod 10)] = show_nat (m div 10) @ [hex_digit (m mod 10)]"
        by (simp add: show_nat.simps [of n] show_nat.simps [of m])
      then have a: "show_nat (n div 10) = show_nat (m div 10)"
        and b: "hex_digit (n mod 10) = hex_digit (m mod 10)" by simp_all
      from "1.IH" [OF False a] have c: "n div 10 = m div 10" .
      from b have d: "n mod 10 = m mod 10" by (intro hex_digit_inj) simp_all
      from c d show ?thesis by (metis div_mult_mod_eq)
    qed
  qed
qed

lemma zip_no_difference:
  "length xs = length ys \<Longrightarrow> filter (\<lambda>(x, y). x \<noteq> y) (zip xs ys) = [] \<Longrightarrow> xs = ys"
proof (induction xs ys rule: list_induct2)
  case Nil
  show ?case by simp
next
  case (Cons x xs y ys)
  then show ?case by (simp split: if_splits)
qed

lemma differ_in_one_concat:
  assumes inj: "\<And>a b. f a = f b \<Longrightarrow> a = b"
  shows "length xs = length ys \<Longrightarrow> length (filter (\<lambda>(x, y). x \<noteq> y) (zip xs ys)) = 1
         \<Longrightarrow> concat (map f xs) \<noteq> concat (map f ys)"
proof (induction xs ys rule: list_induct2)
  case Nil
  then show ?case by simp
next
  case (Cons x xs y ys)
  show ?case
  proof (cases "x = y")
    case True
    with Cons.prems have "length (filter (\<lambda>(x, y). x \<noteq> y) (zip xs ys)) = 1" by simp
    from Cons.IH [OF this] True show ?thesis by simp
  next
    case False
    with Cons.prems have "filter (\<lambda>(x, y). x \<noteq> y) (zip xs ys) = []" by simp
    with Cons.hyps have "xs = ys" by (rule zip_no_difference)
    moreover from False inj have "f x \<noteq> f y" by blast
    ultimately show ?thesis by simp
  qed
qed

lemma differ_in_one_map:
  assumes "differ_in_one xs ys" and inj: "\<And>a b. f a = f b \<Longrightarrow> a = b"
  shows "concat (map f xs) \<noteq> concat (map f ys)"
  using assms(1) differ_in_one_concat [of f xs ys, OF inj] by (simp add: differ_in_one_def)

lemma toy_verify_complete:
  "rsa_verify toy_lib k m (rsa_sign toy_lib k m)"
  by (simp add: toy_lib_def)

lemma toy_verify_sound:
  "rsa_verify toy_lib k m' (rsa_sign toy_lib k m) \<longrightarrow> m' = m"
  by (simp add: toy_lib_def)

lemma toy_inputs:
  "signature_inputs toy_lib toy_service u d k l
     = [''https://cipherise.example/'', ''svc-1'', toLowerCase u, d,
        replicate k (CHR ''k'') @ [CHR 0x0A], show_nat l]"
proof -
  have "toLowerCase ''https://Cipherise.example/'' = ''https://cipherise.example/''"
    by code_simp
  then show ?thesis
    by (simp add: signature_inputs_def toy_lib_def toy_service_def)
qed

lemma lower_alice: "toLowerCase ''Alice'' = ''alice''" "toLowerCase ''alice'' = ''alice''"
  by code_simp+

section \<open>The signature over a device key\<close>

text \<open>
  C1 (as amended). \<open>verifySignature\<close> recomputes the SHA-256 digest exactly as
  \<open>calculateSignatureData\<close> does, over the lower-cased server URL, the service id, the
  lower-cased username, the device id, the PEM text of the supplied key followed by a
  newline, and the level in decimal; it returns true iff the signature is valid for that
  digest under the Service's own key. The supplied key enters through the digest only.
\<close>

theorem verifySignature_uses_service_key:
  "verifySignature L svc s u d k l
     = rsa_verify L (service_key svc) (calculateSignatureData L svc u d k l) s
   \<and> calculateSignatureData L svc u d k l
     = sha256 L (utf8 (toLowerCase (service_url svc)) @ utf8 (service_id svc)
                 @ utf8 (toLowerCase u) @ utf8 d
                 @ utf8 (exportPublicPem L k @ [CHR 0x0A]) @ utf8 (show_nat l))"
  by (simp add: verifySignature_def calculateSignatureData_def signature_inputs_def)

text \<open>
  C1 as stated fails: the signature the service itself makes for key 3 is accepted by
  \<open>verifySignature\<close>, although it is not a signature under the supplied key 3.
\<close>

theorem verifySignature_supplied_key_counterexample:
  "verifySignature toy_lib toy_service
       (calculateSignature toy_lib toy_service ''alice'' ''dev-1'' 3 2) ''alice'' ''dev-1'' 3 2
   \<noteq> rsa_verify toy_lib 3 (calculateSignatureData toy_lib toy_service ''alice'' ''dev-1'' 3 2)
       (calculateSignature toy_lib toy_service ''alice'' ''dev-1'' 3 2)"
  by (simp add: verifySignature_def calculateSignature_def Service_sign_def
      calculateSignatureData_def toy_inputs)
    (simp add: toy_lib_def toy_service_def)

text \<open>
  C7 (as amended). A signature made by \<open>calculateSignature\<close> verifies for the inputs it
  was made for. When exactly one of the six hashed values changes between signing and
  verifying (the server URL and the username after lower-casing, the key as its exported
  PEM text) and the service's key pair stays, \<open>verifySignature\<close> returns false;
  this rests on the usual idealisation of the primitives: a signature verifies for the
  signed data only, and SHA-256 has no collisions.
\<close>

theorem verifySignature_binding:
  assumes complete: "\<forall>m. rsa_verify L (service_key svc) m (rsa_sign L (service_key svc) m)"
    and sound: "\<forall>m m'. rsa_verify L (service_key svc) m' (rsa_sign L (service_key svc) m) \<longrightarrow> m' = m"
    and collision_free: "\<forall>a b. sha256 L a = sha256 L b \<longrightarrow> a = b"
    and same_key: "service_key svc' = service_key svc"
    and changed: "differ_in_one (signature_inputs L svc u d k l) (signature_inputs L svc' u' d' k' l')"
  shows "verifySignature L svc (calculateSignature L svc u d k l) u d k l
       \<and> \<not> verifySignature L svc' (calculateSignature L svc u d k l) u' d' k' l'"
proof
  show "verifySignature L svc (calculateSignature L svc u d k l) u d k l"
    using complete by (simp add: verifySignature_def calculateSignature_def Service_sign_def)
  have "concat (map utf8 (signature_inputs L svc u d k l))
      \<noteq> concat (map utf8 (signature_inputs L svc' u' d' k' l'))"
    using changed inj_utf8 by (rule differ_in_one_map)
  then have "calculateSignatureData L svc' u' d' k' l' \<noteq> calculateSignatureData L svc u d k l"
    using collision_free by (auto simp add: calculateSignatureData_def)
  then show "\<not> verifySignature L svc' (calculateSignature L svc u d k l) u' d' k' l'"
    using sound same_key by (auto simp add: verifySignature_def calculateSignature_def Service_sign_def)
qed


theorem verifySignature_binding_witness:
  "verifySignature toy_lib toy_service
       (calculateSignature toy_lib toy_service ''alice'' ''dev-1'' 3 2) ''alice'' ''dev-1'' 3 2
   \<and> \<not> verifySignature toy_lib toy_service
       (calculateSignature toy_lib toy_service ''alice'' ''dev-1'' 3 2) ''alice'' ''dev-2'' 3 2"
proof -
  have c: "\<forall>m. rsa_verify toy_lib (service_key toy_service) m
                (rsa_sign toy_lib (service_key toy_service) m)"
    by (simp add: toy_verify_complete)
  have s: "\<forall>m m'. rsa_verify toy_lib (service_key toy_service) m'
                (rsa_sign toy_lib (service_key toy_service) m) \<longrightarrow> m' = m"
    by (simp add: toy_verify_sound)
  have h: "\<forall>a b. sha256 toy_lib a = sha256 toy_lib b \<longrightarrow> a = b"
    by (simp add: toy_lib_def)
  have d: "differ_in_one (signature_inputs toy_lib toy_service ''alice'' ''dev-1'' 3 2)
             (signature_inputs toy_lib toy_service ''alice'' ''dev-2'' 3 2)"
    by (simp add: toy_inputs differ_in_one_def)
  from verifySignature_binding [OF c s h refl d] show ?thesis .
qed

text \<open>
  C7 as stated fails: a username that differs in case only is a changed input, and the
  signature still verifies, because both sides hash the lower-cased name.
\<close>

theorem verifySignature_case_counterexample:
  "''Alice'' \<noteq> ''alice''
   \<and> verifySignature toy_lib toy_service
       (calculateSignature toy_lib toy_service ''Alice'' ''dev-1'' 3 2) ''alice'' ''dev-1'' 3 2"
  by (simp add: verifySignature_def calculateSignature_def Service_sign_def
      calculateSignatureData_def toy_inputs)
    (simp add: toy_lib_def toy_service_def lower_alice)

section \<open>Device listing\<close>

text \<open>
  C4. The claim asks that a response with at least one device, none of which passes
  verification, ends in the error \<open>Mismatching key signatures\<close>. The code sets
  \<^verbatim>\<open>foundValidDevice\<close> as soon as one signature verifies, before the later levels of
  the same device are checked. At the input below the only device has a valid signature
  for level 1 and an invalid one for level 2: the device is dropped, the flag stays set,
  and the call returns the empty list without an error.
\<close>

theorem getUserDevices_partly_verified_device:
  "getUserDevices toy_lib toy_service ''alice''
     (Inr (Some [\<lparr> deviceId = ''dev-1'', friendlyName = ''Phone'',
                    publicKeys = [(1, ''k''), (2, ''kk'')],
                    signatures =
                      [(1, toHex (calculateSignature toy_lib toy_service ''alice'' ''dev-1'' 1 1)),
                       (2, ''00'')] \<rparr>]))
   = Inr []"
  by code_simp

text \<open>
  The same device with the invalid signature alone is refused with the error, and with the
  valid signature alone it is listed.
\<close>

lemma getUserDevices_unverified_device:
  "getUserDevices toy_lib toy_service ''alice''
     (Inr (Some [\<lparr> deviceId = ''dev-1'', friendlyName = ''Phone'',
                    publicKeys = [(1, ''k''), (2, ''kk'')],
                    signatures = [(2, ''00'')] \<rparr>]))
   = Inl (Error ''Mismatching key signatures'')"
  by code_simp

lemma getUserDevices_verified_device:
  "getUserDevices toy_lib toy_service ''alice''
     (Inr (Some [\<lparr> deviceId = ''dev-1'', friendlyName = ''Phone'',
                    publicKeys = [(1, ''k''), (2, ''kk'')],
                    signatures =
                      [(1, toHex (calculateSignature toy_lib toy_service ''alice'' ''dev-1'' 1 1))] \<rparr>]))
   = Inr [\<lparr> device_id = ''dev-1'', device_name = ''Phone'', device_keys = [(1, 1), (2, 2)] \<rparr>]"
  by code_simp

lemma getUserDevices_no_devices:
  "getUserDevices L svc username (Inr (Some [])) = Inr []"
  by (simp add: getUserDevices_def)

section \<open>Facts about the cipher mode\<close>

lemma xor_zip_cancel:
  "length a \<le> length k \<Longrightarrow> map2 (XOR) (map2 (XOR) a k) k = (a :: buffer)"
proof (induction a arbitrary: k)
  case Nil
  show ?case by simp
next
  case (Cons x a)
  then obtain y k' where "k = y # k'" by (cases k) auto
  with Cons show ?case by (simp add: xor.assoc)
qed

lemma cfb_encrypt_length:
  "\<forall>b. length (E b) = 16 \<Longrightarrow> length (cfb_encrypt E prev plain) = length plain"
proof (induction E prev plain rule: cfb_encrypt.induct)
  case (1 E prev plain)
  show ?case
  proof (cases "plain = []")
    case True
    then show ?thesis by (simp add: cfb_encrypt.simps)
  next
    case False
    have "length (cfb_encrypt E (map2 (XOR) (take 16 plain) (E prev)) (drop 16 plain))
            = length (drop 16 plain)"
      using "1.IH" [OF False refl] "1.prems" by simp
    with False "1.prems" show ?thesis
      by (subst cfb_encrypt.simps) (simp add: Let_def min_def)
  qed
qed

lemma cfb_roundtrip:
  "\<forall>b. length (E b) = 16 \<Longrightarrow> cfb_decrypt E prev (cfb_encrypt E prev plain) = plain"
proof (induction E prev plain rule: cfb_encrypt.induct)
  case (1 E prev plain)
  show ?case
  proof (cases "plain = []")
    case True
    then show ?thesis by (simp add: cfb_encrypt.simps cfb_decrypt.simps)
  next
    case False
    define c where "c = map2 (XOR) (take 16 plain) (E prev)"
    define rest where "rest = cfb_encrypt E c (drop 16 plain)"
    have enc: "cfb_encrypt E prev plain = c @ rest"
      using False by (subst cfb_encrypt.simps) (simp add: c_def rest_def Let_def)
    have lenc: "length c = min 16 (length plain)"
      using "1.prems" by (simp add: c_def min_def)
    have xinv: "map2 (XOR) c (E prev) = take 16 plain"
      unfolding c_def using "1.prems" by (intro xor_zip_cancel) simp
    have ih: "cfb_decrypt E c rest = drop 16 plain"
      unfolding rest_def c_def using "1.IH" [OF False refl] "1.prems" by simp
    have "length c \<noteq> 0"
      using False lenc by (simp add: min_def)
    then have ne: "c @ rest \<noteq> []" by simp
    have step: "cfb_decrypt E prev (c @ rest)
        = map2 (XOR) (take 16 (c @ rest)) (E prev)
          @ cfb_decrypt E (take 16 (c @ rest)) (drop 16 (c @ rest))"
      by (subst cfb_decrypt.simps) (simp only: ne if_False)
    have split: "take 16 (c @ rest) = c \<and> drop 16 (c @ rest) = rest"
    proof (cases "16 \<le> length plain")
      case True
      with lenc have "length c = 16" by simp
      then show ?thesis by simp
    next
      case short: False
      then have "drop 16 plain = []" by simp
      then have "rest = []" by (simp add: rest_def cfb_encrypt.simps)
      moreover from short lenc have "length c < 16" by simp
      ultimately show ?thesis by simp
    qed
    have "cfb_decrypt E prev (c @ rest) = map2 (XOR) c (E prev) @ cfb_decrypt E c rest"
      by (simp only: step split)
    also have "\<dots> = take 16 plain @ drop 16 plain"
      by (simp only: xinv ih)
    finally show ?thesis
      by (simp add: enc)
  qed
qed

lemma fromUtf8_utf8: "fromUtf8 (utf8 s) = s"
proof -
  have "char_of (unat (word_of_nat (of_char c) :: byte)) = c" for c
  proof -
    have "unat (word_of_nat (of_char c) :: byte) = of_char c"
      by (simp add: unat_of_nat take_bit_eq_mod)
    then show ?thesis by simp
  qed
  then show ?thesis by (simp add: fromUtf8_def utf8_def map_idI)
qed

lemma utf8_empty: "utf8 s = [] \<longleftrightarrow> s = []"
  by (simp add: utf8_def)

section \<open>The size ceiling of the payload envelope\<close>

text \<open>
  C5. Once the maximum payload size is negotiated (the cached value, or the one
  \<open>serverInformation\<close> stores: 4000 when the server's answer has no
  \<^verbatim>\<open>payloadSize\<close>), \<open>encryptPayloadData\<close> throws
  \<open>PayloadDataLengthExceededError\<close> exactly when twice the length of the ciphertext
  followed by the IV reaches that size; it then yields no envelope and sends nothing
  more. Otherwise it returns the envelope of the three hexadecimal texts.
\<close>

theorem encryptPayloadData_ceiling:
  assumes "getPayloadSize W st = (Inr maxSize, st1)"
  shows "encryptPayloadData L W st recipientPublicKey j key iv pad =
     (let encryptedDataWithIV = cfb_encrypt (aes_block L key) iv (utf8 (json_stringify L j)) @ iv
      in if 2 * int (length encryptedDataWithIV) \<ge> maxSize
         then (Inl (PayloadDataLengthExceededError
                 (''Payload data length limit exceeded: length ''
                  @ show_nat (length encryptedDataWithIV) @ '', but max '' @ show_int maxSize)),
               st1)
         else (Inr \<lparr> env_data = toHex encryptedDataWithIV,
                     env_key = toHex (rsa_encrypt L recipientPublicKey pad key),
                     env_signature = toHex (rsa_sign L (service_key (service st))
                                            (rsa_encrypt L recipientPublicKey pad key)) \<rparr>, st1))
   \<and> (payloadSize st = None
        \<and> W (requests st) \<lparr> req_method = GET, req_url = service_url (service st) @ ''info'',
                             req_form = None, req_session = None \<rparr> = Inr response
        \<and> field response ''payloadSize'' = None \<longrightarrow> maxSize = 4000)"
proof
  show "encryptPayloadData L W st recipientPublicKey j key iv pad =
     (let encryptedDataWithIV = cfb_encrypt (aes_block L key) iv (utf8 (json_stringify L j)) @ iv
      in if 2 * int (length encryptedDataWithIV) \<ge> maxSize
         then (Inl (PayloadDataLengthExceededError
                 (''Payload data length limit exceeded: length ''
                  @ show_nat (length encryptedDataWithIV) @ '', but max '' @ show_int maxSize)),
               st1)
         else (Inr \<lparr> env_data = toHex encryptedDataWithIV,
                     env_key = toHex (rsa_encrypt L recipientPublicKey pad key),
                     env_signature = toHex (rsa_sign L (service_key (service st))
                                            (rsa_encrypt L recipientPublicKey pad key)) \<rparr>, st1))"
    using assms by (simp add: encryptPayloadData_def Let_def mult.commute)
  show "payloadSize st = None
        \<and> W (requests st) \<lparr> req_method = GET, req_url = service_url (service st) @ ''info'',
                             req_form = None, req_session = None \<rparr> = Inr response
        \<and> field response ''payloadSize'' = None \<longrightarrow> maxSize = 4000"
  proof
    assume h: "payloadSize st = None
        \<and> W (requests st) \<lparr> req_method = GET, req_url = service_url (service st) @ ''info'',
                             req_form = None, req_session = None \<rparr> = Inr response
        \<and> field response ''payloadSize'' = None"
    with assms show "maxSize = 4000"
      by (auto simp add: getPayloadSize_def serverInformation_def web_call_def Let_def
          new_ServerInformation_def as_number_def
          split: if_splits option.splits sum.splits prod.splits)
  qed
qed


theorem encryptPayloadData_ceiling_witness:
  "encryptPayloadData toy_lib toy_web (toy_state (Some 34)) 9 (JNum 7) toy_key toy_iv []
     = (Inl (PayloadDataLengthExceededError
               ''Payload data length limit exceeded: length 17, but max 34''),
        toy_state (Some 34))
   \<and> encryptPayloadData toy_lib toy_web (toy_state (Some 35)) 9 (JNum 7) toy_key toy_iv []
     = (Inr \<lparr> env_data = ''3402020202020202020202020202020202'',
               env_key = ''090101010101010101010101010101010101010101010101010101010101010101'',
               env_signature =
                 ''07090101010101010101010101010101010101010101010101010101010101010101'' \<rparr>,
        toy_state (Some 35))
   \<and> payloadSize (toy_state None) = None
   \<and> field toy_info ''payloadSize'' = None
   \<and> fst (getPayloadSize toy_web (toy_state None)) = Inr 4000"
proof -
  have a: "getPayloadSize toy_web (toy_state (Some 34)) = (Inr 34, toy_state (Some 34))"
    by (simp add: getPayloadSize_def toy_state_def)
  have b: "getPayloadSize toy_web (toy_state (Some 35)) = (Inr 35, toy_state (Some 35))"
    by (simp add: getPayloadSize_def toy_state_def)
  note over = encryptPayloadData_ceiling [OF a, of toy_lib 9 "JNum 7" toy_key toy_iv "[]", THEN conjunct1]
  note under = encryptPayloadData_ceiling [OF b, of toy_lib 9 "JNum 7" toy_key toy_iv "[]", THEN conjunct1]
  have 1: "encryptPayloadData toy_lib toy_web (toy_state (Some 34)) 9 (JNum 7) toy_key toy_iv []
     = (Inl (PayloadDataLengthExceededError
               ''Payload data length limit exceeded: length 17, but max 34''),
        toy_state (Some 34))"
    by (rule trans [OF over]) code_simp
  have 2: "encryptPayloadData toy_lib toy_web (toy_state (Some 35)) 9 (JNum 7) toy_key toy_iv []
     = (Inr \<lparr> env_data = ''3402020202020202020202020202020202'',
               env_key = ''090101010101010101010101010101010101010101010101010101010101010101'',
               env_signature =
                 ''07090101010101010101010101010101010101010101010101010101010101010101'' \<rparr>,
        toy_state (Some 35))"
    by (rule trans [OF under]) code_simp
  have 3: "payloadSize (toy_state None) = None"
    by (simp add: toy_state_def)
  have 4: "field toy_info ''payloadSize'' = None"
    by (simp add: toy_info_def field_def)
  have 5: "fst (getPayloadSize toy_web (toy_state None)) = Inr 4000"
    by code_simp
  from 1 2 3 4 5 show ?thesis by (intro conjI)
qed

section \<open>The payload envelope: round trip and tampering\<close>

text \<open>
  C6 (as amended). Let the sender's public key verify what the sender's private key
  signs, and only that; let the recipient's private key decrypt what was encrypted to its
  public key; let the payload \<open>P\<close> survive \<open>JSON.stringify\<close> followed by
  \<open>JSON.parse\<close>. Then \<open>decryptPayloadJson\<close> applied to the envelope
  \<open>encryptPayloadData\<close> returns yields \<open>P\<close>, and an envelope whose key field no
  longer decodes to the same bytes fails with the payload signature error. (The block
  function is any function to blocks of 16 bytes: CFB decryption never inverts it.)
\<close>

theorem payload_roundtrip:
  assumes serial: "json_parse L (json_stringify L P) = Inr P"
    and nonempty: "json_stringify L P \<noteq> []"
    and blk: "\<forall>k b. length (aes_block L k b) = 16"
    and rnd: "length key = 32 \<and> length iv = 16"
    and sig_complete: "\<forall>m. rsa_verify L senderPublicKey m (rsa_sign L (service_key (service st)) m)"
    and sig_sound: "\<forall>m m'. rsa_verify L senderPublicKey m' (rsa_sign L (service_key (service st)) m)
                      \<longrightarrow> m' = m"
    and dec: "rsa_decrypt L (service_key recipient) (rsa_encrypt L recipientPublicKey pad key) = Inr key"
    and enc: "encryptPayloadData L W st recipientPublicKey P key iv pad = (Inr env, st1)"
  shows "decryptPayloadJson L recipient senderPublicKey env = Inr P
       \<and> (fromHex tampered \<noteq> fromHex (env_key env) \<longrightarrow>
            decryptPayloadJson L recipient senderPublicKey (env\<lparr> env_key := tampered \<rparr>)
              = Inl (Error ''Failed payload signature verification''))"
proof -
  define ct where "ct = cfb_encrypt (aes_block L key) iv (utf8 (json_stringify L P))"
  define ek where "ek = rsa_encrypt L recipientPublicKey pad key"
  define sg where "sg = rsa_sign L (service_key (service st)) ek"
  from enc have env: "env = \<lparr> env_data = toHex (ct @ iv), env_key = toHex ek,
                               env_signature = toHex sg \<rparr>"
    by (auto simp add: encryptPayloadData_def Let_def ct_def ek_def sg_def
        split: prod.splits sum.splits if_splits)
  have len: "length ct = length (json_stringify L P)"
    using blk by (simp add: ct_def cfb_encrypt_length utf8_def)
  with nonempty have pos: "0 < length ct" by simp
  have plain: "cfb_decrypt (aes_block L key) iv ct = utf8 (json_stringify L P)"
    unfolding ct_def using blk by (intro cfb_roundtrip) simp
  have ok: "rsa_verify L senderPublicKey ek sg"
    using sig_complete by (simp add: sg_def)
  have first: "decryptPayloadJson L recipient senderPublicKey env = Inr P"
    using ok dec rnd pos plain serial
    by (simp add: decryptPayloadJson_def env fromHex_toHex ek_def [symmetric] Let_def fromUtf8_utf8)
  have second: "fromHex tampered \<noteq> fromHex (env_key env) \<longrightarrow>
      decryptPayloadJson L recipient senderPublicKey (env\<lparr> env_key := tampered \<rparr>)
        = Inl (Error ''Failed payload signature verification'')"
  proof
    assume "fromHex tampered \<noteq> fromHex (env_key env)"
    then have "fromHex tampered \<noteq> ek" by (simp add: env fromHex_toHex)
    with sig_sound have "\<not> rsa_verify L senderPublicKey (fromHex tampered) sg"
      unfolding sg_def by blast
    then show "decryptPayloadJson L recipient senderPublicKey (env\<lparr> env_key := tampered \<rparr>)
        = Inl (Error ''Failed payload signature verification'')"
      by (simp add: decryptPayloadJson_def env fromHex_toHex Let_def)
  qed
  from first second show ?thesis ..
qed


lemma toy_encrypt:
  "encryptPayloadData toy_lib toy_web (toy_state (Some 4000)) 9 toy_payload toy_key toy_iv []
     = (Inr toy_envelope, toy_state (Some 4000))"
  by code_simp

theorem payload_roundtrip_witness:
  "decryptPayloadJson toy_lib toy_recipient 7 toy_envelope = Inr toy_payload
   \<and> decryptPayloadJson toy_lib toy_recipient 7
        (toy_envelope\<lparr> env_key :=
           ''0a0101010101010101010101010101010101010101010101010101010101010101'' \<rparr>)
       = Inl (Error ''Failed payload signature verification'')"
proof -
  have serial: "json_parse toy_lib (json_stringify toy_lib toy_payload) = Inr toy_payload"
    by code_simp
  have nonempty: "json_stringify toy_lib toy_payload \<noteq> []"
    by code_simp
  have blk: "\<forall>k b. length (aes_block toy_lib k b) = 16"
    by (auto simp add: toy_lib_def min_def)
  have rnd: "length toy_key = 32 \<and> length toy_iv = 16"
    by (simp add: toy_key_def toy_iv_def)
  have sig_complete: "\<forall>m. rsa_verify toy_lib 7 m
      (rsa_sign toy_lib (service_key (service (toy_state (Some 4000)))) m)"
    by (simp add: toy_lib_def toy_state_def toy_service_def)
  have sig_sound: "\<forall>m m'. rsa_verify toy_lib 7 m'
      (rsa_sign toy_lib (service_key (service (toy_state (Some 4000)))) m) \<longrightarrow> m' = m"
    by (simp add: toy_lib_def toy_state_def toy_service_def)
  have dec: "rsa_decrypt toy_lib (service_key toy_recipient) (rsa_encrypt toy_lib 9 [] toy_key)
      = Inr toy_key"
    by (simp add: toy_lib_def toy_recipient_def toy_decrypt_def)
  have changed: "fromHex ''0a0101010101010101010101010101010101010101010101010101010101010101''
      \<noteq> fromHex (env_key toy_envelope)"
    by code_simp
  from payload_roundtrip [OF serial nonempty blk rnd sig_complete sig_sound dec toy_encrypt,
      of "''0a0101010101010101010101010101010101010101010101010101010101010101''"] changed
  show ?thesis by blast
qed

text \<open>
  C6 as stated fails for the data field, which no signature covers. In CFB mode a changed
  byte of the last ciphertext block changes the same byte of the plain text and nothing
  else: one hexadecimal character of the data field turns the stored pin 1234 into 1235,
  and \<open>decryptPayloadJson\<close> returns the changed value.
\<close>

theorem payload_data_tamper_counterexample:
  "fst (encryptPayloadData toy_lib toy_web (toy_state (Some 4000)) 9
          (JObj [(''getResponse'', JObj [(''pin'', JStr ''1234'')])]) toy_key toy_iv [])
     = Inr \<lparr>
         env_data = ''7821646677516670736c6d70662139785b4a4b0953544f454354665a1a1802020202020202020202020202020202'',
         env_key = ''090101010101010101010101010101010101010101010101010101010101010101'',
         env_signature = ''07090101010101010101010101010101010101010101010101010101010101010101'' \<rparr>
   \<and> decryptPayloadJson toy_lib toy_recipient 7 \<lparr>
         env_data = ''7821646677516670736c6d70662139785b4a4b0953544f454354675a1a1802020202020202020202020202020202'',
         env_key = ''090101010101010101010101010101010101010101010101010101010101010101'',
         env_signature = ''07090101010101010101010101010101010101010101010101010101010101010101'' \<rparr>
     = Inr (JObj [(''getResponse'', JObj [(''pin'', JStr ''1235'')])])"
  by code_simp

section \<open>The access helpers\<close>

text \<open>More fuel does not change what a call returned.\<close>

lemma fuel_Suc:
  "(\<forall>k m url form st r. attempts f L W k m url form st = Some r
        \<longrightarrow> attempts (Suc f) L W k m url form st = Some r)
   \<and> (\<forall>st q. refreshSession f L W st = Some q \<longrightarrow> refreshSession (Suc f) L W st = Some q)"
proof (induction f)
  case 0
  have "attempts 0 L W k m url form st = Some r \<longrightarrow> attempts (Suc 0) L W k m url form st = Some r"
    for k m url form st r
    by (cases k) simp_all
  then show ?case by simp
next
  case (Suc f)
  then have A: "\<And>k m url form st r. attempts f L W k m url form st = Some r
        \<Longrightarrow> attempts (Suc f) L W k m url form st = Some r"
    and R: "\<And>st q. refreshSession f L W st = Some q \<Longrightarrow> refreshSession (Suc f) L W st = Some q"
    by blast+
  have a: "attempts (Suc f) L W k m url form st = Some r
        \<Longrightarrow> attempts (Suc (Suc f)) L W k m url form st = Some r" for k m url form st r
  proof (cases k)
    case 0
    then show "attempts (Suc f) L W k m url form st = Some r
        \<Longrightarrow> attempts (Suc (Suc f)) L W k m url form st = Some r" by simp
  next
    case (Suc rounds)
    assume h: "attempts (Suc f) L W k m url form st = Some r"
    obtain res st1 where w: "web_call W st (the_request m url form st) = (res, st1)"
      by (cases "web_call W st (the_request m url form st)")
    show "attempts (Suc (Suc f)) L W k m url form st = Some r"
    proof (cases res)
      case (Inr body)
      with h w Suc show ?thesis by simp
    next
      case (Inl err)
      show ?thesis
      proof (cases "is_SessionExpiredError err")
        case False
        with h w Suc Inl show ?thesis by simp
      next
        case True
        show ?thesis
        proof (cases "refreshSession f L W st1")
          case None
          with h w Suc Inl True show ?thesis by simp
        next
          case (Some q)
          note R [OF Some]
          moreover obtain x st2 where q: "q = (x, st2)" by (cases q)
          ultimately show ?thesis
            using h w Suc Inl True Some A [of rounds m url form st2 r]
            by (cases x) simp_all
        qed
      qed
    qed
  qed
  have r: "refreshSession (Suc f) L W st = Some q \<Longrightarrow> refreshSession (Suc (Suc f)) L W st = Some q"
    for st q
    apply (simp only: refreshSession.simps)
    apply (auto split: option.splits sum.splits prod.splits dest!: A)
    done
  from a r show ?case by blast
qed


lemma refreshSession_mono:
  "refreshSession f L W st = Some q \<Longrightarrow> refreshSession (Suc f) L W st = Some q"
  using fuel_Suc [of f L W] by blast

text \<open>
  Each access helper is the two-round loop. If the first request succeeds its body is
  returned and nothing else is sent; a first error that is not a session expiry is
  thrown at once. On a session expiry \<open>refreshSession\<close> runs: if it throws, its error
  is thrown and the request is not repeated; if it returns, the request is sent once
  more with the new session, and its body is returned or its other error thrown. If the
  second request also ends in a session expiry, \<open>refreshSession\<close> runs once more: if
  it throws, its error is thrown; if it returns, the call resolves to \<^verbatim>\<open>undefined\<close>,
  the request itself sent exactly twice.
\<close>

lemma access_helper_retry:
  fixes st :: "'k state"
  assumes r1: "r1 = the_request m url form st"
    and st1: "st1 = st\<lparr> requests := requests st @ [r1] \<rparr>"
    and r2: "r2 = the_request m url form st2"
    and st3: "st3 = st2\<lparr> requests := requests st2 @ [r2] \<rparr>"
  shows "Service_postUrl fuel L W url f st = attempts fuel L W 2 POST url (Some f) st
       \<and> Service_postUri fuel L W uri f st
            = attempts fuel L W 2 POST (service_url (service st) @ uri) (Some f) st
       \<and> Service_getUrl fuel L W url st = attempts fuel L W 2 GET url None st
       \<and> Service_getUri fuel L W uri st
            = attempts fuel L W 2 GET (service_url (service st) @ uri) None st
       \<and> (W (requests st) r1 = Inr body
            \<longrightarrow> attempts (Suc n) L W 2 m url form st = Some (Inr (Some body), st1))
       \<and> (W (requests st) r1 = Inl e \<and> \<not> is_SessionExpiredError e
            \<longrightarrow> attempts (Suc n) L W 2 m url form st = Some (Inl e, st1))
       \<and> (W (requests st) r1 = Inl e \<and> is_SessionExpiredError e
            \<and> refreshSession n L W st1 = Some (Inl e', st2)
            \<longrightarrow> attempts (Suc n) L W 2 m url form st = Some (Inl e', st2))
       \<and> (W (requests st) r1 = Inl e \<and> is_SessionExpiredError e
            \<and> refreshSession n L W st1 = Some (Inr (), st2)
            \<longrightarrow> (W (requests st2) r2 = Inr body
                  \<longrightarrow> attempts (Suc (Suc n)) L W 2 m url form st = Some (Inr (Some body), st3))
              \<and> (W (requests st2) r2 = Inl e' \<and> \<not> is_SessionExpiredError e'
                  \<longrightarrow> attempts (Suc (Suc n)) L W 2 m url form st = Some (Inl e', st3))
              \<and> (W (requests st2) r2 = Inl e' \<and> is_SessionExpiredError e'
                  \<and> refreshSession n L W st3 = Some (Inl e'', st4)
                  \<longrightarrow> attempts (Suc (Suc n)) L W 2 m url form st = Some (Inl e'', st4))
              \<and> (W (requests st2) r2 = Inl e' \<and> is_SessionExpiredError e'
                  \<and> refreshSession n L W st3 = Some (Inr (), st4)
                  \<longrightarrow> attempts (Suc (Suc n)) L W 2 m url form st = Some (Inr None, st4)))"
proof -
  have two: "attempts k L W 2 m url form st = attempts k L W (Suc (Suc 0)) m url form st" for k
    by (simp add: numeral_2_eq_2)
  have h1: "Service_postUrl fuel L W url f st = attempts fuel L W 2 POST url (Some f) st"
    by (simp add: Service_postUrl_def)
  have h2: "Service_postUri fuel L W uri f st
      = attempts fuel L W 2 POST (service_url (service st) @ uri) (Some f) st"
    by (simp add: Service_postUri_def)
  have h3: "Service_getUrl fuel L W url st = attempts fuel L W 2 GET url None st"
    by (simp add: Service_getUrl_def)
  have h4: "Service_getUri fuel L W uri st
      = attempts fuel L W 2 GET (service_url (service st) @ uri) None st"
    by (simp add: Service_getUri_def)
  have success: "W (requests st) r1 = Inr body
         \<longrightarrow> attempts (Suc n) L W 2 m url form st = Some (Inr (Some body), st1)"
    by (simp add: two web_call_def r1 st1)
  have other: "W (requests st) r1 = Inl e \<and> \<not> is_SessionExpiredError e
         \<longrightarrow> attempts (Suc n) L W 2 m url form st = Some (Inl e, st1)"
    by (simp add: two web_call_def r1 st1)
  have refresh_throws: "W (requests st) r1 = Inl e \<and> is_SessionExpiredError e
         \<and> refreshSession n L W st1 = Some (Inl e', st2)
         \<longrightarrow> attempts (Suc n) L W 2 m url form st = Some (Inl e', st2)"
    by (simp add: two web_call_def r1 st1)
  have retried: "W (requests st) r1 = Inl e \<and> is_SessionExpiredError e
         \<and> refreshSession n L W st1 = Some (Inr (), st2)
         \<longrightarrow> (W (requests st2) r2 = Inr body
               \<longrightarrow> attempts (Suc (Suc n)) L W 2 m url form st = Some (Inr (Some body), st3))
           \<and> (W (requests st2) r2 = Inl e' \<and> \<not> is_SessionExpiredError e'
               \<longrightarrow> attempts (Suc (Suc n)) L W 2 m url form st = Some (Inl e', st3))
           \<and> (W (requests st2) r2 = Inl e' \<and> is_SessionExpiredError e'
               \<and> refreshSession n L W st3 = Some (Inl e'', st4)
               \<longrightarrow> attempts (Suc (Suc n)) L W 2 m url form st = Some (Inl e'', st4))
           \<and> (W (requests st2) r2 = Inl e' \<and> is_SessionExpiredError e'
               \<and> refreshSession n L W st3 = Some (Inr (), st4)
               \<longrightarrow> attempts (Suc (Suc n)) L W 2 m url form st = Some (Inr None, st4))"
  proof (intro impI)
    assume h: "W (requests st) r1 = Inl e \<and> is_SessionExpiredError e
         \<and> refreshSession n L W st1 = Some (Inr (), st2)"
    then have up: "refreshSession (Suc n) L W st1 = Some (Inr (), st2)"
      by (intro refreshSession_mono) simp
    have start: "attempts (Suc (Suc n)) L W 2 m url form st
        = attempts (Suc n) L W (Suc 0) m url form st2"
      using h up by (simp add: two web_call_def r1 st1)
    show "(W (requests st2) r2 = Inr body
               \<longrightarrow> attempts (Suc (Suc n)) L W 2 m url form st = Some (Inr (Some body), st3))
           \<and> (W (requests st2) r2 = Inl e' \<and> \<not> is_SessionExpiredError e'
               \<longrightarrow> attempts (Suc (Suc n)) L W 2 m url form st = Some (Inl e', st3))
           \<and> (W (requests st2) r2 = Inl e' \<and> is_SessionExpiredError e'
               \<and> refreshSession n L W st3 = Some (Inl e'', st4)
               \<longrightarrow> attempts (Suc (Suc n)) L W 2 m url form st = Some (Inl e'', st4))
           \<and> (W (requests st2) r2 = Inl e' \<and> is_SessionExpiredError e'
               \<and> refreshSession n L W st3 = Some (Inr (), st4)
               \<longrightarrow> attempts (Suc (Suc n)) L W 2 m url form st = Some (Inr None, st4))"
      unfolding start by (simp add: web_call_def r2 st3)
  qed
  show ?thesis
    by (intro conjI) (rule h1 h2 h3 h4 success other refresh_throws retried)+
qed


text \<open>
  Against a server that hands out a session but never accepts the address \<open>gone\<close>,
  both requests end in a session expiry, both refreshes return, and the call resolves
  to \<^verbatim>\<open>undefined\<close> after two requests to that address.
\<close>

lemma access_helper_retry_example:
  "map_option fst (attempts 4 toy_lib toy_server 2 GET ''https://Cipherise.example/gone'' None
                     (toy_state None)) = Some (Inr None)
   \<and> map_option (\<lambda>r. map req_url (requests (snd r)))
        (attempts 4 toy_lib toy_server 2 GET ''https://Cipherise.example/gone'' None
           (toy_state None))
     = Some [''https://Cipherise.example/gone'',
             ''https://Cipherise.example/sp/authenticate-service/svc-1'',
             ''https://Cipherise.example/sp/authenticate-service/'',
             ''https://Cipherise.example/gone'',
             ''https://Cipherise.example/sp/authenticate-service/svc-1'',
             ''https://Cipherise.example/sp/authenticate-service/'']"
proof -
  define st where "st = toy_state None"
  define r1 where "r1 = the_request GET ''https://Cipherise.example/gone'' None st"
  define st1 where "st1 = st\<lparr> requests := requests st @ [r1] \<rparr>"
  define st2 where "st2 = snd (the (refreshSession 2 toy_lib toy_server st1))"
  define r2 where "r2 = the_request GET ''https://Cipherise.example/gone'' None st2"
  define st3 where "st3 = st2\<lparr> requests := requests st2 @ [r2] \<rparr>"
  define st4 where "st4 = snd (the (refreshSession 2 toy_lib toy_server st3))"
  note defs = st_def r1_def st1_def st2_def r2_def st3_def st4_def
  have first: "toy_server (requests st) r1 = Inl (SessionExpiredError ''Cipherise session expired'')"
    unfolding defs by code_simp
  have refresh1: "refreshSession 2 toy_lib toy_server st1 = Some (Inr (), st2)"
    unfolding defs by code_simp
  have second: "toy_server (requests st2) r2 = Inl (SessionExpiredError ''Cipherise session expired'')"
    unfolding defs by code_simp
  have refresh2: "refreshSession 2 toy_lib toy_server st3 = Some (Inr (), st4)"
    unfolding defs by code_simp
  have expired: "is_SessionExpiredError (SessionExpiredError ''Cipherise session expired'')"
    by (simp add: is_SessionExpiredError_def)
  note T = access_helper_retry [OF r1_def st1_def r2_def st3_def,
      where L = toy_lib and W = toy_server and n = 2
        and e = "SessionExpiredError ''Cipherise session expired''"
        and e' = "SessionExpiredError ''Cipherise session expired''" and ?st4.0 = st4]
  from T first refresh1 second refresh2 expired
  have "attempts (Suc (Suc 2)) toy_lib toy_server 2 GET ''https://Cipherise.example/gone'' None st
      = Some (Inr None, st4)"
    by blast
  then have res: "attempts 4 toy_lib toy_server 2 GET ''https://Cipherise.example/gone'' None
      (toy_state None) = Some (Inr None, st4)"
    by (simp add: st_def eval_nat_numeral)
  have urls: "map req_url (requests st4)
      = [''https://Cipherise.example/gone'',
         ''https://Cipherise.example/sp/authenticate-service/svc-1'',
         ''https://Cipherise.example/sp/authenticate-service/'',
         ''https://Cipherise.example/gone'',
         ''https://Cipherise.example/sp/authenticate-service/svc-1'',
         ''https://Cipherise.example/sp/authenticate-service/'']"
    unfolding defs by code_simp
  from res urls show ?thesis by simp
qed

text \<open>
  Against a server that refuses the request as expired and answers the refresh with an
  error, the helper throws that error after a single attempt.
\<close>

lemma access_helper_refresh_error:
  "toy_revoked [] (the_request GET ''https://Cipherise.example/sp/user-devices/alice'' None
                     (toy_state None))
     = Inl (SessionExpiredError ''Cipherise session expired'')
   \<and> map_option fst (attempts 4 toy_lib toy_revoked 2 GET
                        ''https://Cipherise.example/sp/user-devices/alice'' None (toy_state None))
     = Some (Inl (Error ''Service not found''))
   \<and> map_option (\<lambda>r. map req_url (requests (snd r)))
        (attempts 4 toy_lib toy_revoked 2 GET
           ''https://Cipherise.example/sp/user-devices/alice'' None (toy_state None))
     = Some [''https://Cipherise.example/sp/user-devices/alice'',
             ''https://Cipherise.example/sp/authenticate-service/svc-1'']"
  by code_simp

text \<open>
  Against a server that refuses every request as expired, the requests of
  \<open>refreshSession\<close> are refused as well and each refusal starts another refresh.
\<close>

lemma always_expired_never_returns:
  "(\<forall>k m url form st. attempts fuel L always_expired (Suc k) m url form (st :: 'k state) = None)
   \<and> (\<forall>st. refreshSession fuel L always_expired (st :: 'k state) = None)"
proof (induction fuel)
  case 0
  show ?case by simp
next
  case (Suc fuel)
  then have "refreshSession (Suc fuel) L always_expired st = None" for st :: "'k state"
    by (simp add: numeral_2_eq_2)
  moreover have "web_call always_expired st r
      = (Inl (SessionExpiredError ''Cipherise session expired''),
         st\<lparr> requests := requests st @ [r] \<rparr>)" for r and st :: "'k state"
    by (simp add: web_call_def always_expired_def)
  with Suc have "attempts (Suc fuel) L always_expired (Suc k) m url form st = None"
    for k m url form and st :: "'k state"
    by (simp add: is_SessionExpiredError_def)
  ultimately show ?case by blast
qed

text \<open>
  C3. The claim asks that a call whose every attempt ends in a session expiry resolves
  to \<^verbatim>\<open>undefined\<close> after exactly two attempts, and the specification names the server
  for it: one that answers every request with a session expiry. Against that server no
  access helper returns. The first refusal starts \<open>refreshSession\<close>, whose own request
  goes through \<^verbatim>\<open>getUri\<close>, is refused as well and starts \<open>refreshSession\<close> again,
  without end: whatever bound \<open>fuel\<close> is put on the nesting, the bound is reached
  before the call has returned (\<open>None\<close>). The value \<^verbatim>\<open>undefined\<close> would be
  \<open>Some (Inr None, st')\<close>.
\<close>

theorem access_helper_always_expired:
  "Service_postUrl fuel L always_expired url f st = None
   \<and> Service_postUri fuel L always_expired uri f st = None
   \<and> Service_getUrl fuel L always_expired url st = None
   \<and> Service_getUri fuel L always_expired uri st = None"
  using always_expired_never_returns [of fuel L]
  by (simp add: Service_postUrl_def Service_postUri_def Service_getUrl_def Service_getUri_def
      numeral_2_eq_2)

section \<open>Authentication with a refused payload\<close>

text \<open>The envelope the device returns says that nothing was stored.\<close>

lemma toy_refusal_content:
  "decryptPayloadJson toy_lib toy_service 3 toy_refusal = Inr (JObj [(''setResponse'', JBool False)])"
  by code_simp

text \<open>
  C2. The assertion reports \<^verbatim>\<open>authenticated == "true"\<close>, the key signature and the
  challenge solution verify, a payload with a non-empty \<^verbatim>\<open>set\<close> is requested and the
  device answers \<^verbatim>\<open>setResponse: false\<close>. The notice posted last carries
  \<^verbatim>\<open>verified: false\<close>, as the claim says; the outcome returned is \<open>Success\<close>, where
  the claim says \<open>Failure\<close>: the result is chosen by \<^verbatim>\<open>authenticated\<close> alone.
\<close>

theorem authenticateInternal_payload_refused:
  "map_option (\<lambda>(r, a, s). (r, last (requests s)))
     (authenticateInternal 4 toy_lib toy_auth_server toy_auth
        (Some \<lparr> pr_get = [], pr_set = [(''pin'', ''1234'')] \<rparr>) toy_key toy_iv [] (toy_state None))
   = Some (Inr \<lparr> res_authenticated = Success, res_username = Some (JStr ''alice''),
                  res_payload = \<lparr> ps_get = [], ps_set = Some (JBool False) \<rparr> \<rparr>,
           \<lparr> req_method = POST, req_url = ''https://Cipherise.example/verify/1'',
             req_form = Some (JObj [(''verified'', JBool False)]), req_session = None \<rparr>)"
  by code_simp

text \<open>Without a payload request the same assertion is accepted.\<close>

lemma authenticateInternal_no_payload:
  "map_option (\<lambda>(r, a, s). (r, last (requests s)))
     (authenticateInternal 4 toy_lib toy_auth_server toy_auth None toy_key toy_iv [] (toy_state None))
   = Some (Inr \<lparr> res_authenticated = Success, res_username = Some (JStr ''alice''),
                  res_payload = \<lparr> ps_get = [], ps_set = Some (JBool False) \<rparr> \<rparr>,
           \<lparr> req_method = POST, req_url = ''https://Cipherise.example/verify/1'',
             req_form = Some (JObj [(''verified'', JBool True)]), req_session = None \<rparr>)"
  by code_simp

section \<open>Deserialization errors\<close>

text \<open>
  A decoded value that is not an array is refused by every deserializer with a message
  that names the entity and says that the buffer was invalid.
\<close>

lemma deserialize_checks:
  "decode C bytes = Inr v \<Longrightarrow> (\<forall>arr. v \<noteq> MArr arr) \<Longrightarrow>
     deserializeService L C url bytes
       = Inl (Error ''Attempted to deserialize service, but buffer was invalid'')
     \<and> Device_deserialize L C bytes
       = Inl (Error ''Attempted to deserialize device, but buffer was invalid'')
     \<and> deserializeEnrolment L C svc bytes
       = Inl (Error ''Attempted to deserialize enrolment, but buffer was invalid'')
     \<and> deserializePushAuth L C svc bytes
       = Inl (Error ''Attempted to deserialize PushAuth, but buffer was invalid'')
     \<and> deserializeWaveAuth C svc bytes
       = Inl (Error ''Attempted to deserialize WaveAuth, but buffer was invalid'')"
  by (cases v) (simp_all add: deserializeService_def Device_deserialize_def
      deserializeEnrolment_def deserializePushAuth_def deserializeWaveAuth_def)


text \<open>
  C9. The claim asks that every mismatch is reported by an error naming the entity that
  was being deserialized and the kind of mismatch. Two messages do not: an enrolment
  whose version is not 6.0.0 is refused with the message of \<open>PushAuth\<close>, and a
  service of six components whose version is not 6.0.0 is refused as if its header were
  missing.
\<close>

theorem deserialize_wrong_version_messages:
  "deserializeEnrolment toy_lib toy_codec toy_service
     (encode toy_codec
        (MArr [MStr ''CiphEnrl'', MStr ''5.0.0'', MStr ''log-1'', MStr ''w'', MStr ''d'',
               MStr ''s'', MStr ''v'', MStr ''alice'', MStr ''c'', MStr ''dev-1'', MObj []]))
     = Inl (Error ''Attempted to deserialize PushAuth, but wrong version'')
   \<and> deserializeService toy_lib toy_codec ''https://Cipherise.example/''
       (encode toy_codec
          (MArr [MStr ''CiphSrvc'', MStr ''5.0.0'', MStr ''svc-1'', MBin [1, 1, 1], MNil, MNil]))
     = Inl (Error ''Attempted to deserialize service, but header not found'')"
  by code_simp

section \<open>Serialization round trips\<close>

text \<open>
  The deserializers read what the serializers wrote. Two facts about the libraries are
  assumed: a key exported and imported again exports to the same bytes, and the codec
  decodes the array it encoded. The levels of a key map come back in ascending order,
  which is the order \<^verbatim>\<open>publicKeyMapToObject\<close> lists them in, so the two objects the
  equality compares are the same list.
\<close>

lemma update_fresh:
  "k \<notin> fst ` set al \<Longrightarrow> AList.update k v al = al @ [(k, v)]"
  by (induction al) auto

lemma objectToPublicKeyMap_loop_imports:
  "distinct (map fst obj) \<Longrightarrow> fst ` set obj \<inter> fst ` set acc = {} \<Longrightarrow>
   \<forall>p \<in> set obj. importPublicPem L (snd p) = Inr (g (snd p)) \<Longrightarrow>
   objectToPublicKeyMap_loop L obj acc = Inr (acc @ map (\<lambda>p. (fst p, g (snd p))) obj)"
proof (induction obj arbitrary: acc)
  case Nil
  show ?case by simp
next
  case (Cons p obj)
  obtain l pem where p: "p = (l, pem)" by (cases p)
  from Cons.prems p have fresh: "l \<notin> fst ` set acc" by auto
  from Cons.prems p have imp: "importPublicPem L pem = Inr (g pem)" by simp
  have "objectToPublicKeyMap_loop L obj (acc @ [(l, g pem)])
      = Inr ((acc @ [(l, g pem)]) @ map (\<lambda>p. (fst p, g (snd p))) obj)"
  proof (rule Cons.IH)
    show "distinct (map fst obj)" using Cons.prems by simp
    show "fst ` set obj \<inter> fst ` set (acc @ [(l, g pem)]) = {}"
      using Cons.prems p by auto
    show "\<forall>p\<in>set obj. importPublicPem L (snd p) = Inr (g (snd p))"
      using Cons.prems by simp
  qed
  with fresh imp p show ?case by (simp add: update_fresh)
qed

lemma object_set_last:
  "\<forall>p \<in> set obj. fst p < k \<Longrightarrow> object_set k v obj = obj @ [(k, v)]"
  by (induction obj) auto

lemma object_set_subset:
  "set (object_set k v obj) \<subseteq> insert (k, v) (set obj)"
  by (induction obj) (auto split: if_splits)

lemma object_set_keys:
  "fst ` set (object_set k v obj) \<subseteq> insert k (fst ` set obj)"
  using object_set_subset [of k v obj] by force

lemma object_set_values:
  "snd ` set (object_set k v obj) \<subseteq> insert v (snd ` set obj)"
  using object_set_subset [of k v obj] by force

lemma object_set_sorted:
  "sorted_wrt (<) (map fst obj) \<Longrightarrow> sorted_wrt (<) (map fst (object_set k v obj))"
proof (induction obj)
  case Nil
  show ?case by simp
next
  case (Cons p obj)
  obtain k' v' where p: "p = (k', v')" by (cases p)
  show ?case
  proof (cases "k = k'")
    case True
    with Cons.prems p show ?thesis by simp
  next
    case ne: False
    show ?thesis
    proof (cases "k < k'")
      case True
      with Cons.prems p ne show ?thesis by auto
    next
      case False
      with ne have gt: "k' < k" by simp
      have "sorted_wrt (<) (map fst (object_set k v obj))"
        using Cons.prems by (intro Cons.IH) simp
      moreover have "\<forall>x \<in> fst ` set (object_set k v obj). k' < x"
      proof
        fix x assume "x \<in> fst ` set (object_set k v obj)"
        with object_set_keys [of k v obj] have "x = k \<or> x \<in> fst ` set obj" by auto
        with Cons.prems p gt show "k' < x" by auto
      qed
      ultimately show ?thesis using p ne False by simp
    qed
  qed
qed

lemma fold_object_set_invariant:
  "sorted_wrt (<) (map fst acc) \<Longrightarrow> snd ` set acc \<subseteq> range f \<Longrightarrow>
   sorted_wrt (<) (map fst (fold (\<lambda>(level, k) obj. object_set level (f k) obj) keys acc))
   \<and> snd ` set (fold (\<lambda>(level, k) obj. object_set level (f k) obj) keys acc) \<subseteq> range f"
proof (induction keys arbitrary: acc)
  case Nil
  then show ?case by simp
next
  case (Cons p keys)
  obtain l k where p: "p = (l, k)" by (cases p)
  have "sorted_wrt (<) (map fst (object_set l (f k) acc))"
    using Cons.prems by (intro object_set_sorted) simp
  moreover have "snd ` set (object_set l (f k) acc) \<subseteq> range f"
    using object_set_values [of l "f k" acc] Cons.prems by auto
  ultimately show ?case using Cons.IH [of "object_set l (f k) acc"] p by simp
qed

lemma fold_object_set_sorted_input:
  fixes f :: "'k \<Rightarrow> 'v"
  shows "sorted_wrt (<) (map fst acc @ map fst keys) \<Longrightarrow>
   fold (\<lambda>(level, k) obj. object_set level (f k) obj) keys acc
     = acc @ map (\<lambda>p. (fst p, f (snd p))) keys"
proof (induction keys arbitrary: acc)
  case Nil
  show ?case by simp
next
  case (Cons p keys)
  obtain l k where p: "p = (l, k)" by (cases p)
  from Cons.prems p have "\<forall>q \<in> set acc. fst q < l"
    by (auto simp add: sorted_wrt_append)
  then have step: "object_set l (f k) acc = acc @ [(l, f k)]"
    by (rule object_set_last)
  have "sorted_wrt (<) (map fst (acc @ [(l, f k)]) @ map fst keys)"
    using Cons.prems p by simp
  from Cons.IH [OF this] step p show ?case by simp
qed

lemma keys_object_roundtrip:
  assumes pub: "\<forall>k. \<exists>k'. importPublicPem L (exportPublicPem L k) = Inr k'
                      \<and> exportPublicPem L k' = exportPublicPem L k"
  shows "\<exists>keys'. objectToPublicKeyMap L (publicKeyMapToObject L keys) = Inr keys'
           \<and> publicKeyMapToObject L keys' = publicKeyMapToObject L keys"
proof -
  define obj where "obj = publicKeyMapToObject L keys"
  define g where "g = (\<lambda>pem. projr (importPublicPem L pem))"
  have inv: "sorted_wrt (<) (map fst obj) \<and> snd ` set obj \<subseteq> range (exportPublicPem L)"
    unfolding obj_def publicKeyMapToObject_def
    by (rule fold_object_set_invariant) simp_all
  have pems: "importPublicPem L pem = Inr (g pem) \<and> exportPublicPem L (g pem) = pem"
    if "pem \<in> snd ` set obj" for pem
  proof -
    from that inv obtain k where k: "pem = exportPublicPem L k" by auto
    from pub obtain k' where "importPublicPem L (exportPublicPem L k) = Inr k'"
      and "exportPublicPem L k' = exportPublicPem L k" by blast
    with k show ?thesis by (simp add: g_def)
  qed
  define keys' where "keys' = map (\<lambda>p. (fst p, g (snd p))) obj"
  have dist: "distinct (map fst obj)"
    using inv by (simp add: strict_sorted_iff [symmetric] sorted_wrt_map distinct_map
        strict_sorted_imp_sorted)
      (metis distinct_map sorted_wrt_map strict_sorted_iff)
  have load: "objectToPublicKeyMap L obj = Inr keys'"
    unfolding objectToPublicKeyMap_def keys'_def
    using dist pems
    by (subst objectToPublicKeyMap_loop_imports [where g = g]) auto
  have srt: "sorted_wrt (<) (map fst [] @ map fst keys')"
    using inv by (simp add: keys'_def comp_def)
  have "publicKeyMapToObject L keys' = map (\<lambda>p. (fst p, exportPublicPem L (snd p))) keys'"
    unfolding publicKeyMapToObject_def
    using fold_object_set_sorted_input [of "[]" keys' "exportPublicPem L"] srt by simp
  also have "\<dots> = map (\<lambda>p. (fst p, exportPublicPem L (g (snd p)))) obj"
    by (simp add: keys'_def comp_def)
  also have "\<dots> = obj"
    using pems by (intro map_idI) (auto simp add: prod_eq_iff)
  finally have "publicKeyMapToObject L keys' = publicKeyMapToObject L keys"
    by (simp add: obj_def)
  with load show ?thesis unfolding obj_def by blast
qed


lemma mp_nullable_mp: "mp_nullable (nullable_mp v) = v"
  by (cases v) (simp_all add: mp_nullable_def nullable_mp_def)

lemma null_undefined_null:
  "null_to_undefined (undefined_to_null v) = v \<longleftrightarrow> v \<noteq> Null"
  by (cases v) (simp_all add: null_to_undefined_def undefined_to_null_def)

lemma has_undefined_nullable: "has_undefined (nullable_mp v) \<longleftrightarrow> v = Undefined"
  by (cases v) (simp_all add: nullable_mp_def)

lemma has_undefined_to_null: "\<not> has_undefined (nullable_mp (undefined_to_null v))"
  by (cases v) (simp_all add: nullable_mp_def undefined_to_null_def)

lemma Service_serialize_result:
  "Service_serialize L C s =
     (if sessionId s = Undefined then Inl (Error ''undefined is not encodable in msgpack!'')
      else Inr (encode C (Service_array L s)))"
  by (simp add: Service_serialize_def msgpack_encode_def Service_array_def
      has_undefined_nullable)

lemma Device_serialize_result: "Device_serialize L C d = Inr (encode C (Device_array L d))"
  by (simp add: Device_serialize_def msgpack_encode_def Device_array_def)

lemma Enrolment_serialize_result:
  "Enrolment_serialize L C e = Inr (encode C (Enrolment_array L e))"
  by (simp add: Enrolment_serialize_def msgpack_encode_def Enrolment_array_def)

lemma PushAuth_serialize_result:
  "PushAuth_serialize L C p
     = Inr (encode C (PushAuth_array p (encode C (Device_array L (push_device p)))))"
  by (simp add: PushAuth_serialize_def Device_serialize_result msgpack_encode_def
      PushAuth_array_def has_undefined_to_null)

lemma WaveAuth_serialize_result: "WaveAuth_serialize C w = Inr (encode C (WaveAuth_array w))"
  by (simp add: WaveAuth_serialize_def msgpack_encode_def WaveAuth_array_def
      has_undefined_to_null)

lemma Service_roundtrip:
  assumes priv: "\<forall>k. \<exists>k'. importPrivateDer L (exportPrivateDer L k) = Inr k'
                      \<and> exportPrivateDer L k' = exportPrivateDer L k"
    and codec: "decode C (encode C (Service_array L s)) = Inr (Service_array L s)"
  shows "\<exists>s'. deserializeService L C (service_url s) (encode C (Service_array L s)) = Inr s'
            \<and> Service_equals L s' s \<and> sessionId s' = sessionId s"
proof -
  from priv obtain k' where k': "importPrivateDer L (exportPrivateDer L (service_key s)) = Inr k'"
    "exportPrivateDer L k' = exportPrivateDer L (service_key s)" by blast
  have "deserializeService L C (service_url s) (encode C (Service_array L s))
      = Inr \<lparr> service_id = service_id s, service_url = service_url s,
               service_key = k', sessionId = sessionId s \<rparr>"
    unfolding deserializeService_def codec
    by (simp add: Service_array_def mp_buffer_def mp_string_def mp_nullable_mp k')
  with k' show ?thesis by (simp add: Service_equals_def)
qed

lemma Device_roundtrip:
  assumes pub: "\<forall>k. \<exists>k'. importPublicPem L (exportPublicPem L k) = Inr k'
                      \<and> exportPublicPem L k' = exportPublicPem L k"
    and codec: "decode C (encode C (Device_array L d)) = Inr (Device_array L d)"
  shows "\<exists>d'. Device_deserialize L C (encode C (Device_array L d)) = Inr d'
            \<and> Device_equals L d' d"
proof -
  from keys_object_roundtrip [OF pub, of "device_keys d"] obtain keys'
    where keys': "objectToPublicKeyMap L (publicKeyMapToObject L (device_keys d)) = Inr keys'"
      "publicKeyMapToObject L keys' = publicKeyMapToObject L (device_keys d)" by blast
  have "Device_deserialize L C (encode C (Device_array L d))
      = Inr \<lparr> device_id = device_id d, device_name = device_name d, device_keys = keys' \<rparr>"
    unfolding Device_deserialize_def codec
    by (simp add: Device_array_def mp_string_def mp_object_def keys')
  with keys' show ?thesis by (simp add: Device_equals_def)
qed

lemma Enrolment_roundtrip:
  assumes pub: "\<forall>k. \<exists>k'. importPublicPem L (exportPublicPem L k) = Inr k'
                      \<and> exportPublicPem L k' = exportPublicPem L k"
    and codec: "decode C (encode C (Enrolment_array L e)) = Inr (Enrolment_array L e)"
  shows "\<exists>e'. deserializeEnrolment L C (enrol_service e) (encode C (Enrolment_array L e)) = Inr e'
            \<and> Enrolment_equals L e' e"
proof -
  from keys_object_roundtrip [OF pub, of "enrol_publicKeys e"] obtain keys'
    where keys': "objectToPublicKeyMap L (publicKeyMapToObject L (enrol_publicKeys e)) = Inr keys'"
      "publicKeyMapToObject L keys' = publicKeyMapToObject L (enrol_publicKeys e)" by blast
  have "deserializeEnrolment L C (enrol_service e) (encode C (Enrolment_array L e))
      = Inr (e \<lparr> enrol_publicKeys := keys' \<rparr>)"
    unfolding deserializeEnrolment_def codec
    by (simp add: Enrolment_array_def mp_string_def mp_object_def keys')
  with keys' show ?thesis by (simp add: Enrolment_equals_def Service_equals_def)
qed

lemma PushAuth_roundtrip:
  assumes pub: "\<forall>k. \<exists>k'. importPublicPem L (exportPublicPem L k) = Inr k'
                      \<and> exportPublicPem L k' = exportPublicPem L k"
    and device: "device = encode C (Device_array L (push_device p))"
    and codec: "decode C (encode C (PushAuth_array p device)) = Inr (PushAuth_array p device)"
    and codec_device: "decode C device = Inr (Device_array L (push_device p))"
  shows "\<exists>p'. deserializePushAuth L C (push_service p) (encode C (PushAuth_array p device))
              = Inr p'
            \<and> (PushAuth_equals L p' p \<longleftrightarrow> push_verifyAuthUrl p \<noteq> Null)"
proof -
  from Device_roundtrip [OF pub, of C "push_device p"] codec_device device obtain d'
    where d': "Device_deserialize L C device = Inr d'"
      "Device_equals L d' (push_device p)" by auto
  have "deserializePushAuth L C (push_service p) (encode C (PushAuth_array p device))
      = Inr (p \<lparr> push_device := d',
                 push_verifyAuthUrl := null_to_undefined (undefined_to_null (push_verifyAuthUrl p)) \<rparr>)"
    unfolding deserializePushAuth_def codec
    by (simp add: PushAuth_array_def mp_string_def mp_buffer_def mp_number_def
        mp_nullable_mp d')
  with d' show ?thesis
    by (simp add: PushAuth_equals_def Service_equals_def null_undefined_null)
qed

lemma WaveAuth_roundtrip:
  assumes codec: "decode C (encode C (WaveAuth_array w)) = Inr (WaveAuth_array w)"
  shows "\<exists>w'. deserializeWaveAuth C (wave_service w) (encode C (WaveAuth_array w)) = Inr w'
            \<and> (WaveAuth_equals L w' w
                 \<longleftrightarrow> wave_appChallengeUrl w \<noteq> Null \<and> wave_verifyAuthUrl w \<noteq> Null)"
proof -
  have "deserializeWaveAuth C (wave_service w) (encode C (WaveAuth_array w))
      = Inr (w \<lparr> wave_appChallengeUrl := null_to_undefined (undefined_to_null (wave_appChallengeUrl w)),
                 wave_verifyAuthUrl := null_to_undefined (undefined_to_null (wave_verifyAuthUrl w)) \<rparr>)"
    unfolding deserializeWaveAuth_def codec
    by (simp add: WaveAuth_array_def mp_string_def mp_buffer_def mp_number_def
        mp_nullable_mp)
  then show ?thesis
    by (simp add: WaveAuth_equals_def Service_equals_def null_undefined_null)
qed

text \<open>
  C8 (as amended). A Service whose session id is a string or \<^verbatim>\<open>null\<close>, a Device, an
  Enrolment, a PushAuth and a WaveAuth are serialized without an error, and the matching
  deserializer (of the client with the service's address, or of the service the entity
  belongs to) reads an entity back. \<^verbatim>\<open>equals\<close> accepts it against the original for the
  Service, the Device and the Enrolment; for a PushAuth and a WaveAuth it does exactly
  when no optional address of the original is \<^verbatim>\<open>null\<close>, that is, when each is a
  string or \<^verbatim>\<open>undefined\<close> as the field is declared. The equality of services compares
  the id, the address and the exported private key, and nothing else: a service with
  any other session id is equal.
\<close>

theorem serialize_roundtrip:
  assumes priv: "\<forall>k. \<exists>k'. importPrivateDer L (exportPrivateDer L k) = Inr k'
                      \<and> exportPrivateDer L k' = exportPrivateDer L k"
    and pub: "\<forall>k. \<exists>k'. importPublicPem L (exportPublicPem L k) = Inr k'
                      \<and> exportPublicPem L k' = exportPublicPem L k"
    and codec_service: "decode C (encode C (Service_array L s)) = Inr (Service_array L s)"
    and codec_device: "decode C (encode C (Device_array L d)) = Inr (Device_array L d)"
    and codec_enrolment: "decode C (encode C (Enrolment_array L e)) = Inr (Enrolment_array L e)"
    and push_device: "device = encode C (Device_array L (push_device p))"
    and codec_push: "decode C (encode C (PushAuth_array p device)) = Inr (PushAuth_array p device)"
    and codec_push_device: "decode C device = Inr (Device_array L (push_device p))"
    and codec_wave: "decode C (encode C (WaveAuth_array w)) = Inr (WaveAuth_array w)"
    and session: "sessionId s \<noteq> Undefined"
  shows "(\<exists>bytes s'. Service_serialize L C s = Inr bytes
              \<and> deserializeService L C (service_url s) bytes = Inr s'
              \<and> Service_equals L s' s)
       \<and> (\<exists>bytes d'. Device_serialize L C d = Inr bytes
              \<and> Device_deserialize L C bytes = Inr d'
              \<and> Device_equals L d' d)
       \<and> (\<exists>bytes e'. Enrolment_serialize L C e = Inr bytes
              \<and> deserializeEnrolment L C (enrol_service e) bytes = Inr e'
              \<and> Enrolment_equals L e' e)
       \<and> (\<exists>bytes p'. PushAuth_serialize L C p = Inr bytes
              \<and> deserializePushAuth L C (push_service p) bytes = Inr p'
              \<and> (PushAuth_equals L p' p \<longleftrightarrow> push_verifyAuthUrl p \<noteq> Null))
       \<and> (\<exists>bytes w'. WaveAuth_serialize C w = Inr bytes
              \<and> deserializeWaveAuth C (wave_service w) bytes = Inr w'
              \<and> (WaveAuth_equals L w' w
                   \<longleftrightarrow> wave_appChallengeUrl w \<noteq> Null \<and> wave_verifyAuthUrl w \<noteq> Null))
       \<and> (Service_equals L a b
            \<longleftrightarrow> service_id a = service_id b \<and> service_url a = service_url b
                \<and> exportPrivateDer L (service_key a) = exportPrivateDer L (service_key b))
       \<and> Service_equals L (s \<lparr> sessionId := token \<rparr>) s"
proof -
  from Service_roundtrip [OF priv codec_service] session
  have 1: "\<exists>bytes s'. Service_serialize L C s = Inr bytes
              \<and> deserializeService L C (service_url s) bytes = Inr s'
              \<and> Service_equals L s' s"
    by (auto simp add: Service_serialize_result)
  from Device_roundtrip [OF pub codec_device]
  have 2: "\<exists>bytes d'. Device_serialize L C d = Inr bytes
              \<and> Device_deserialize L C bytes = Inr d'
              \<and> Device_equals L d' d"
    by (auto simp add: Device_serialize_result)
  from Enrolment_roundtrip [OF pub codec_enrolment]
  have 3: "\<exists>bytes e'. Enrolment_serialize L C e = Inr bytes
              \<and> deserializeEnrolment L C (enrol_service e) bytes = Inr e'
              \<and> Enrolment_equals L e' e"
    by (auto simp add: Enrolment_serialize_result)
  from PushAuth_roundtrip [OF pub push_device codec_push codec_push_device]
  have 4: "\<exists>bytes p'. PushAuth_serialize L C p = Inr bytes
              \<and> deserializePushAuth L C (push_service p) bytes = Inr p'
              \<and> (PushAuth_equals L p' p \<longleftrightarrow> push_verifyAuthUrl p \<noteq> Null)"
    unfolding PushAuth_serialize_result push_device by blast
  from WaveAuth_roundtrip [OF codec_wave, of L]
  have 5: "\<exists>bytes w'. WaveAuth_serialize C w = Inr bytes
              \<and> deserializeWaveAuth C (wave_service w) bytes = Inr w'
              \<and> (WaveAuth_equals L w' w
                   \<longleftrightarrow> wave_appChallengeUrl w \<noteq> Null \<and> wave_verifyAuthUrl w \<noteq> Null)"
    unfolding WaveAuth_serialize_result by blast
  have 6: "Service_equals L a b
            \<longleftrightarrow> service_id a = service_id b \<and> service_url a = service_url b
                \<and> exportPrivateDer L (service_key a) = exportPrivateDer L (service_key b)"
    by (simp add: Service_equals_def)
  have 7: "Service_equals L (s \<lparr> sessionId := token \<rparr>) s"
    by (simp add: Service_equals_def)
  from 1 2 3 4 5 6 7 show ?thesis by (intro conjI)
qed

theorem serialize_roundtrip_witness:
  "(\<exists>bytes s'. Service_serialize toy_lib toy_codec toy_service = Inr bytes
          \<and> deserializeService toy_lib toy_codec (service_url toy_service) bytes = Inr s'
          \<and> Service_equals toy_lib s' toy_service)
   \<and> (\<exists>bytes d'. Device_serialize toy_lib toy_codec toy_device = Inr bytes
          \<and> Device_deserialize toy_lib toy_codec bytes = Inr d'
          \<and> Device_equals toy_lib d' toy_device)
   \<and> (\<exists>bytes e'. Enrolment_serialize toy_lib toy_codec toy_enrolment = Inr bytes
          \<and> deserializeEnrolment toy_lib toy_codec (enrol_service toy_enrolment) bytes = Inr e'
          \<and> Enrolment_equals toy_lib e' toy_enrolment)
   \<and> (\<exists>bytes p'. PushAuth_serialize toy_lib toy_codec toy_push = Inr bytes
          \<and> deserializePushAuth toy_lib toy_codec (push_service toy_push) bytes = Inr p'
          \<and> PushAuth_equals toy_lib p' toy_push)
   \<and> (\<exists>bytes w'. WaveAuth_serialize toy_codec toy_wave = Inr bytes
          \<and> deserializeWaveAuth toy_codec (wave_service toy_wave) bytes = Inr w'
          \<and> WaveAuth_equals toy_lib w' toy_wave)
   \<and> Service_equals toy_lib (toy_service \<lparr> sessionId := Str ''session-1'' \<rparr>) toy_service"
proof -
  have priv: "\<forall>k. \<exists>k'. importPrivateDer toy_lib (exportPrivateDer toy_lib k) = Inr k'
                      \<and> exportPrivateDer toy_lib k' = exportPrivateDer toy_lib k"
    by (auto simp add: toy_lib_def toy_import_der_def list_all_iff)
  have pub: "\<forall>k. \<exists>k'. importPublicPem toy_lib (exportPublicPem toy_lib k) = Inr k'
                      \<and> exportPublicPem toy_lib k' = exportPublicPem toy_lib k"
    by (auto simp add: toy_lib_def toy_import_def list_all_iff)
  define device where "device = encode toy_codec (Device_array toy_lib (push_device toy_push))"
  have c1: "decode toy_codec (encode toy_codec (Service_array toy_lib toy_service))
              = Inr (Service_array toy_lib toy_service)"
    by code_simp
  have c2: "decode toy_codec (encode toy_codec (Device_array toy_lib toy_device))
              = Inr (Device_array toy_lib toy_device)"
    by code_simp
  have c3: "decode toy_codec (encode toy_codec (Enrolment_array toy_lib toy_enrolment))
              = Inr (Enrolment_array toy_lib toy_enrolment)"
    by code_simp
  have c4: "decode toy_codec (encode toy_codec (PushAuth_array toy_push device))
              = Inr (PushAuth_array toy_push device)"
    unfolding device_def by code_simp
  have c5: "decode toy_codec device = Inr (Device_array toy_lib (push_device toy_push))"
    unfolding device_def by code_simp
  have c6: "decode toy_codec (encode toy_codec (WaveAuth_array toy_wave))
              = Inr (WaveAuth_array toy_wave)"
    by code_simp
  have s: "sessionId toy_service \<noteq> Undefined"
    by (simp add: toy_service_def)
  have n: "push_verifyAuthUrl toy_push \<noteq> Null" "wave_appChallengeUrl toy_wave \<noteq> Null"
    "wave_verifyAuthUrl toy_wave \<noteq> Null"
    by (simp_all add: toy_push_def toy_wave_def)
  from serialize_roundtrip [OF priv pub c1 c2 c3 device_def c4 c5 c6 s,
      of toy_service toy_service "Str ''session-1''"] n
  show ?thesis by simp
qed

text \<open>
  C8 as stated fails outside the declared types of the optional fields. A WaveAuth whose
  \<^verbatim>\<open>appChallengeUrl\<close> is \<^verbatim>\<open>null\<close> is written with \<^verbatim>\<open>null\<close> there and read back with
  \<^verbatim>\<open>undefined\<close>, which \<^verbatim>\<open>===\<close> does not accept as equal. A Service whose session id is
  \<^verbatim>\<open>undefined\<close> is not serialized at all: the encoder throws.
\<close>

theorem serialize_roundtrip_null_counterexample:
  "WaveAuth_serialize toy_codec toy_wave_null
     = Inr (encode toy_codec (WaveAuth_array toy_wave_null))
   \<and> deserializeWaveAuth toy_codec (wave_service toy_wave_null)
        (encode toy_codec (WaveAuth_array toy_wave_null))
     = Inr (toy_wave_null \<lparr> wave_appChallengeUrl := Undefined \<rparr>)
   \<and> \<not> WaveAuth_equals toy_lib (toy_wave_null \<lparr> wave_appChallengeUrl := Undefined \<rparr>)
          toy_wave_null
   \<and> Service_serialize toy_lib toy_codec (toy_service \<lparr> sessionId := Undefined \<rparr>)
     = Inl (Error ''undefined is not encodable in msgpack!'')"
  by code_simp

end
